theory Spec2Isabelle
  imports Complex_Main "HOL-Library.Sublist" "HOL-Library.Multiset"
begin

section \<open>The data-generation script generate\_data.py\<close>

text \<open>
  The script is straight-line glue over third-party libraries (cardiac\_geometries,
  dolfin, ldrb, meshio, fractal\_tree and numpy). Its own logic is: four guards on the
  existence of an output file, the dictionary and array lookups that prepare the
  arguments of each library call, the filter of the cell blocks by region tag, the
  nearest-vertex search, and the fixed seed. The embedding keeps all of that and takes the
  libraries as parameters (the record \<open>libs\<close>): they are not code of this repository.
  What the script uses of numpy is written out as far as it does not round (\<open>vstack\<close>,
  the broadcast of \<open>subtract\<close>, the rows of \<open>linalg.norm\<close>, \<open>argmin\<close> with its handling of
  NaN), with the exceptions numpy raises.

  A finite Python float is modelled as the real number it denotes; the script itself does
  no arithmetic on floats, numpy does, and what numpy computes is a float64 value that
  may be an infinity or NaN, from an arithmetic that is a parameter like the other
  libraries. Python integers are \<open>int\<close>, paths and file contents are strings.
  Exceptions are values of
  the type \<open>error\<close>; a program is a function from the world (the regular files on disk, the
  state of numpy's global random generator, and the log of the library calls made so far)
  to an outcome and the world it leaves behind. The log is an observer: no program reads
  it.
\<close>

subsection \<open>Paths and files\<close>

type_synonym path = string
type_synonym bytes = string

text \<open>The regular files on disk: \<open>Path.is_file\<close> is false for anything else.\<close>

type_synonym filesystem = "path \<rightharpoonup> bytes"

definition is_file :: "filesystem \<Rightarrow> path \<Rightarrow> bool" where
  "is_file files p = (files p \<noteq> None)"

text \<open>\<open>Path / str\<close> for a relative second operand.\<close>

definition path_join :: "path \<Rightarrow> string \<Rightarrow> path" where
  "path_join d n = d @ ''/'' @ n"

text \<open>\<open>Path.name\<close>: the last component.\<close>

definition path_name :: "path \<Rightarrow> string" where
  "path_name p = rev (takeWhile (\<lambda>c. c \<noteq> CHR ''/'') (rev p))"

text \<open>
  \<open>Path.stem\<close>: the name without its last suffix. With \<open>i = name.rfind('.')\<close>, pathlib
  cuts the name at \<open>i\<close> when \<open>0 < i < len(name) - 1\<close> and returns the name otherwise.
\<close>

definition stem :: "path \<Rightarrow> string" where
  "stem p =
     (let name = path_name p;
          after_dot = takeWhile (\<lambda>c. c \<noteq> CHR ''.'') (rev name)
      in if CHR ''.'' \<notin> set name then name
         else (let i = length name - length after_dot - 1
               in if 0 < i \<and> i < length name - 1 then take i name else name))"

definition datadir :: path where
  "datadir = ''data''"

definition msh_file :: path where
  "msh_file = path_join datadir ''biv_ellipsoid.msh''"

definition fiber_file :: path where
  "fiber_file = path_join datadir ''fiber.xdmf''"

definition lv_file :: path where
  "lv_file = path_join datadir ''lv_tree.vtu''"

definition rv_file :: path where
  "rv_file = path_join datadir ''rv_tree.vtu''"

text \<open>The f-string \<open>f"{datadir}/{attr}.xdmf"\<close> of the checkpoint loop.\<close>

definition xdmf_path :: "string \<Rightarrow> path" where
  "xdmf_path attr = datadir @ ''/'' @ attr @ ''.xdmf''"

subsection \<open>Errors\<close>

datatype error =
    KeyError string
  | IndexError
  | ValueError
  | AttributeError string
  | FileNotFoundError path
  | LibraryError string

text \<open>Sequencing of computations that may raise.\<close>

definition bind_err :: "error + 'a \<Rightarrow> ('a \<Rightarrow> error + 'b) \<Rightarrow> error + 'b" where
  "bind_err r f = (case r of Inl e \<Rightarrow> Inl e | Inr a \<Rightarrow> f a)"

subsection \<open>numpy\<close>

type_synonym vec3 = "real \<times> real \<times> real"

text \<open>A two-dimensional integer array: its number of columns and its rows.\<close>

record array2 =
  ncols :: nat
  rows :: "int list list"

text \<open>\<open>x[0]\<close> on a list or a one-dimensional array.\<close>

definition first_elem :: "'a list \<Rightarrow> error + 'a" where
  "first_elem xs = (case xs of [] \<Rightarrow> Inl IndexError | x # _ \<Rightarrow> Inr x)"

text \<open>\<open>d[k]\<close> on a dictionary.\<close>

definition lookup :: "(string \<rightharpoonup> 'a) \<Rightarrow> string \<Rightarrow> error + 'a" where
  "lookup d k = (case d k of None \<Rightarrow> Inl (KeyError k) | Some v \<Rightarrow> Inr v)"

text \<open>\<open>xs[i]\<close> on a list, for an index that is not negative.\<close>

definition item :: "'a list \<Rightarrow> nat \<Rightarrow> error + 'a" where
  "item xs i = (if i < length xs then Inr (xs ! i) else Inl IndexError)"

text \<open>
  \<open>np.vstack\<close>: the rows of the arrays, one array after the other. numpy raises
  ValueError on an empty sequence ("need at least one array to concatenate") and on arrays
  whose numbers of columns differ.
\<close>

definition np_vstack :: "array2 list \<Rightarrow> error + array2" where
  "np_vstack arrs =
     (case arrs of
        [] \<Rightarrow> Inl ValueError
      | a # _ \<Rightarrow>
          if list_all (\<lambda>b. ncols b = ncols a) arrs
          then Inr \<lparr>ncols = ncols a, rows = concat (map rows arrs)\<rparr>
          else Inl ValueError)"

text \<open>
  A float64 value as numpy computes it: a finite value (the real number it denotes), an
  infinity or NaN. The coordinates of a mesh and of the initial nodes are finite; what
  numpy computes from them may not be.
\<close>

datatype float64 = Finite real | PosInf | NegInf | NaN

text \<open>\<open>x >= y\<close> on float64: exact on finite values, false as soon as one side is NaN.\<close>

fun float_ge :: "float64 \<Rightarrow> float64 \<Rightarrow> bool" where
  "float_ge NaN y = False"
| "float_ge x NaN = False"
| "float_ge PosInf y = True"
| "float_ge x NegInf = True"
| "float_ge (Finite a) (Finite b) = (b \<le> a)"
| "float_ge x y = False"

definition isnan :: "float64 \<Rightarrow> bool" where
  "isnan x = (x = NaN)"

type_synonym fvec3 = "float64 \<times> float64 \<times> float64"

text \<open>
  The rounded arithmetic of numpy is a parameter: \<open>sub64\<close> is one element of
  \<open>np.subtract\<close> on float64 operands, \<open>norm64\<close> is \<open>np.linalg.norm\<close> on one row of three.
  Nothing is assumed of how they round.
\<close>

record float64_arith =
  sub64 :: "real \<Rightarrow> real \<Rightarrow> float64"
  norm64 :: "fvec3 \<Rightarrow> float64"

text \<open>\<open>np.subtract(verts, init_node)\<close>: the point is broadcast over the rows.\<close>

definition np_subtract :: "float64_arith \<Rightarrow> vec3 list \<Rightarrow> vec3 \<Rightarrow> fvec3 list" where
  "np_subtract A verts p =
     map (\<lambda>(x, y, z). case p of (px, py, pz) \<Rightarrow> (sub64 A x px, sub64 A y py, sub64 A z pz))
       verts"

text \<open>\<open>np.linalg.norm(a, axis=1)\<close>: the norm of every row.\<close>

definition np_linalg_norm :: "float64_arith \<Rightarrow> fvec3 list \<Rightarrow> float64 list" where
  "np_linalg_norm A a = map (norm64 A) a"

text \<open>
  \<open>ndarray.argmin\<close> on float64: ValueError on an empty array; otherwise the index of the
  first NaN if there is one, and of the first occurrence of the minimum if not. As in
  numpy's loop, the scan keeps the least value \<open>mp\<close> and its index, moves on every \<open>x\<close>
  with \<open>not (x >= mp)\<close>, and stops on a NaN.
\<close>

fun argmin_scan :: "float64 \<Rightarrow> nat \<Rightarrow> nat \<Rightarrow> float64 list \<Rightarrow> nat" where
  "argmin_scan mp bi i [] = bi"
| "argmin_scan mp bi i (x # xs) =
     (if \<not> float_ge x mp
      then (if isnan x then i else argmin_scan x i (Suc i) xs)
      else argmin_scan mp bi (Suc i) xs)"

definition argmin :: "float64 list \<Rightarrow> error + nat" where
  "argmin xs =
     (case xs of
        [] \<Rightarrow> Inl ValueError
      | x # rest \<Rightarrow> Inr (if isnan x then 0 else argmin_scan x 0 1 rest))"

text \<open>
  The arithmetic of IEEE 754 binary64, rounded to nearest with ties to even: the instance
  of the parameter in the statements where rounding decides. \<open>round64\<close> rounds a real
  number: the exponent is that of the number and at least that of the subnormal range, the
  quantum is 52 binary places below it, and a magnitude that reaches \<open>2 ^ 1024\<close> after
  rounding is an infinity.
\<close>

definition round_half_even :: "real \<Rightarrow> int" where
  "round_half_even y =
     (let f = \<lfloor>y\<rfloor>; d = y - of_int f
      in if d < 1 / 2 then f else if 1 / 2 < d then f + 1 else if even f then f else f + 1)"

definition round64 :: "real \<Rightarrow> float64" where
  "round64 x =
     (if x = 0 then Finite 0
      else
        (let e = max \<lfloor>log 2 \<bar>x\<bar>\<rfloor> (- 1022);
             q = 2 powi (e - 52);
             m = of_int (round_half_even (\<bar>x\<bar> / q)) * q
         in if 2 ^ 1024 \<le> m then (if 0 < x then PosInf else NegInf)
            else Finite (sgn x * m)))"

fun square64 :: "float64 \<Rightarrow> float64" where
  "square64 (Finite a) = round64 (a * a)"
| "square64 PosInf = PosInf"
| "square64 NegInf = PosInf"
| "square64 NaN = NaN"

fun add64 :: "float64 \<Rightarrow> float64 \<Rightarrow> float64" where
  "add64 NaN y = NaN"
| "add64 x NaN = NaN"
| "add64 (Finite a) (Finite b) = round64 (a + b)"
| "add64 PosInf NegInf = NaN"
| "add64 NegInf PosInf = NaN"
| "add64 PosInf y = PosInf"
| "add64 x PosInf = PosInf"
| "add64 NegInf y = NegInf"
| "add64 x NegInf = NegInf"

fun sqrt64 :: "float64 \<Rightarrow> float64" where
  "sqrt64 (Finite a) = (if a < 0 then NaN else round64 (sqrt a))"
| "sqrt64 PosInf = PosInf"
| "sqrt64 NegInf = NaN"
| "sqrt64 NaN = NaN"

text \<open>
  \<open>np.linalg.norm\<close> along an axis is \<open>sqrt(add.reduce(x * x))\<close>: every product, every sum
  and the root are rounded.
\<close>

definition ieee_norm :: "fvec3 \<Rightarrow> float64" where
  "ieee_norm r =
     (case r of (x, y, z) \<Rightarrow> sqrt64 (add64 (add64 (square64 x) (square64 y)) (square64 z)))"

definition ieee :: float64_arith where
  "ieee = \<lparr>sub64 = (\<lambda>a b. round64 (a - b)), norm64 = ieee_norm\<rparr>"

subsection \<open>The objects of the libraries\<close>

text \<open>What \<open>meshio.read\<close> returns, as far as the script reads it.\<close>

record msh =
  points :: "vec3 list"
  cells :: "array2 list"
  cell_data :: "string \<rightharpoonup> int list list"
  field_data :: "string \<rightharpoonup> int list"

text \<open>
  The objects of dolfin, ldrb and fractal\_tree are opaque to the script: the type
  variable \<open>'o\<close>. The state of numpy's global random generator is the type variable \<open>'r\<close>.
\<close>

record 'o geometry =
  mesh :: 'o
  ffun :: 'o
  markers :: "string \<rightharpoonup> int list"

record 'o fiber_system =
  fiber :: 'o
  sheet :: 'o
  sheet_normal :: 'o

text \<open>The fields of \<open>FractalTreeParameters\<close> that the script sets.\<close>

record fractal_tree_parameters =
  filename :: path
  init_length :: real
  N_it :: nat
  length_p :: real
  initial_direction :: "int list"

datatype encoding = HDF5 | ASCII

type_synonym writes = "(path \<times> bytes) list"

text \<open>
  The library calls. A call that reads is a function of what it reads: the files for
  \<open>Geometry.from_folder\<close>, the content of one file for \<open>meshio.read\<close>. A call that writes
  is a function of its arguments; it returns the files it writes with their contents, in
  order, and the exception it raises if any. The tree generator also starts from the
  state of the random generator and returns the state it leaves.
\<close>

record ('o, 'r) libs =
  create_biv_ellipsoid :: "path \<Rightarrow> (string \<times> real) list \<Rightarrow> writes \<times> error option"
  from_folder :: "filesystem \<Rightarrow> path \<Rightarrow> error + 'o geometry"
  dolfin_ldrb ::
    "'o \<Rightarrow> string \<Rightarrow> 'o \<Rightarrow> (string \<times> int) list \<Rightarrow> (string \<times> int) list \<Rightarrow> error + 'o fiber_system"
  write_checkpoint ::
    "path \<Rightarrow> 'o \<Rightarrow> string \<Rightarrow> real \<Rightarrow> encoding \<Rightarrow> bool \<Rightarrow> writes \<times> error option"
  meshio_read :: "bytes \<Rightarrow> error + msh"
  numpy :: float64_arith
  Mesh :: "vec3 list \<Rightarrow> array2 \<Rightarrow> vec3 \<Rightarrow> error + 'o"
  random_seed :: "int \<Rightarrow> 'r"
  generate_fractal_tree ::
    "'o \<Rightarrow> fractal_tree_parameters \<Rightarrow> 'r \<Rightarrow> (writes \<times> error option) \<times> 'r"

text \<open>The log of the library calls, each with its arguments.\<close>

datatype ('o, 'r) call =
    CreateBivEllipsoid path "(string \<times> real) list"
  | FromFolder path
  | DolfinLdrb 'o string 'o "(string \<times> int) list" "(string \<times> int) list"
  | WriteCheckpoint path 'o string real encoding bool
  | MeshioRead path
  | MeshInit "vec3 list" array2 vec3
  | RandomSeed int
  | GenerateFractalTree 'o fractal_tree_parameters 'r

record ('o, 'r) world =
  files :: filesystem
  rng :: 'r
  calls :: "('o, 'r) call list"

subsection \<open>Programs\<close>

type_synonym ('o, 'r, 'a) prog = "('o, 'r) world \<Rightarrow> (error + 'a) \<times> ('o, 'r) world"

text \<open>Sequencing: an exception ends the program with the world as it is.\<close>

definition then_do :: "('o, 'r, 'a) prog \<Rightarrow> ('a \<Rightarrow> ('o, 'r, 'b) prog) \<Rightarrow> ('o, 'r, 'b) prog" where
  "then_do m f = (\<lambda>w. case m w of (Inl e, w') \<Rightarrow> (Inl e, w') | (Inr a, w') \<Rightarrow> f a w')"

definition done_ok :: "('o, 'r, unit) prog" where
  "done_ok = (\<lambda>w. (Inr (), w))"

text \<open>A computation of the script itself: no effect but a possible exception.\<close>

definition lift :: "error + 'a \<Rightarrow> ('o, 'r, 'a) prog" where
  "lift r = (\<lambda>w. (r, w))"

definition apply_writes :: "writes \<Rightarrow> filesystem \<Rightarrow> filesystem" where
  "apply_writes ws fsys = fold (\<lambda>(p, b) m. m(p \<mapsto> b)) ws fsys"

definition outcome :: "error option \<Rightarrow> error + unit" where
  "outcome e = (case e of None \<Rightarrow> Inr () | Some x \<Rightarrow> Inl x)"

text \<open>A library call that reads: logged, then its result.\<close>

definition call_pure :: "('o, 'r) call \<Rightarrow> error + 'a \<Rightarrow> ('o, 'r, 'a) prog" where
  "call_pure c r = (\<lambda>w. (r, w\<lparr>calls := calls w @ [c]\<rparr>))"

text \<open>A library call that writes: logged, its files written, then its outcome.\<close>

definition call_writer :: "('o, 'r) call \<Rightarrow> writes \<times> error option \<Rightarrow> ('o, 'r, unit) prog" where
  "call_writer c r =
     (\<lambda>w. (outcome (snd r), w\<lparr>files := apply_writes (fst r) (files w), calls := calls w @ [c]\<rparr>))"

text \<open>\<open>meshio.read(path)\<close>: the file must be there, then the library parses its content.\<close>

definition read_path :: "('o, 'r) libs \<Rightarrow> filesystem \<Rightarrow> path \<Rightarrow> error + msh" where
  "read_path L fsys p =
     (case fsys p of None \<Rightarrow> Inl (FileNotFoundError p) | Some b \<Rightarrow> meshio_read L b)"

definition read_mesh :: "('o, 'r) libs \<Rightarrow> path \<Rightarrow> ('o, 'r, msh) prog" where
  "read_mesh L p = (\<lambda>w. call_pure (MeshioRead p) (read_path L (files w) p) w)"

text \<open>\<open>Geometry.from_folder(folder)\<close>: reads the files of the folder.\<close>

definition read_folder :: "('o, 'r) libs \<Rightarrow> path \<Rightarrow> ('o, 'r, 'o geometry) prog" where
  "read_folder L d = (\<lambda>w. call_pure (FromFolder d) (from_folder L (files w) d) w)"

text \<open>\<open>np.random.seed(s)\<close>: the global generator is replaced by the seeded one.\<close>

definition seed_rng :: "('o, 'r) libs \<Rightarrow> int \<Rightarrow> ('o, 'r, unit) prog" where
  "seed_rng L s = (\<lambda>w. (Inr (), w\<lparr>rng := random_seed L s, calls := calls w @ [RandomSeed s]\<rparr>))"

text \<open>
  \<open>generate_fractal_tree(mesh, param)\<close>: logged with the generator state it starts from;
  its files are written and the generator is left as the library leaves it.
\<close>

definition grow :: "('o, 'r) libs \<Rightarrow> 'o \<Rightarrow> fractal_tree_parameters \<Rightarrow> ('o, 'r, unit) prog" where
  "grow L m param =
     (\<lambda>w. case generate_fractal_tree L m param (rng w) of
             (r, g) \<Rightarrow>
               (outcome (snd r),
                w\<lparr>files := apply_writes (fst r) (files w), rng := g,
                  calls := calls w @ [GenerateFractalTree m param (rng w)]\<rparr>))"

subsection \<open>Create mesh (lines 21 to 46)\<close>

text \<open>The keyword arguments of the call, in the order of the source.\<close>

definition biv_kwargs :: "(string \<times> real) list" where
  "biv_kwargs =
     [(''char_length'', 0.2),
      (''center_lv_y'', 0.2),
      (''center_lv_z'', 0.0),
      (''a_endo_lv'', 5.0),
      (''b_endo_lv'', 2.2),
      (''c_endo_lv'', 2.2),
      (''a_epi_lv'', 6.0),
      (''b_epi_lv'', 3.0),
      (''c_epi_lv'', 3.0),
      (''center_rv_y'', 1.0),
      (''center_rv_z'', 0.0),
      (''a_endo_rv'', 6.0),
      (''b_endo_rv'', 2.5),
      (''c_endo_rv'', 2.7),
      (''a_epi_rv'', 8.0),
      (''b_epi_rv'', 5.5),
      (''c_epi_rv'', 4.0)]"

definition mesh_stage :: "('o, 'r) libs \<Rightarrow> ('o, 'r, unit) prog" where
  "mesh_stage L =
     (\<lambda>w. if \<not> is_file (files w) msh_file
          then call_writer (CreateBivEllipsoid datadir biv_kwargs)
                 (create_biv_ellipsoid L datadir biv_kwargs) w
          else done_ok w)"

subsection \<open>Create fibers (lines 56 to 81)\<close>

text \<open>\<open>geo.markers[name][0]\<close>.\<close>

definition marker :: "'o geometry \<Rightarrow> string \<Rightarrow> error + int" where
  "marker geo name = bind_err (lookup (markers geo) name) first_elem"

text \<open>The dictionary \<open>ldrb_markers\<close>; its four values are evaluated in this order.\<close>

definition ldrb_markers :: "'o geometry \<Rightarrow> error + (string \<times> int) list" where
  "ldrb_markers geo =
     bind_err (marker geo ''BASE'') (\<lambda>b.
     bind_err (marker geo ''ENDO_LV'') (\<lambda>l.
     bind_err (marker geo ''ENDO_RV'') (\<lambda>r.
     bind_err (marker geo ''EPI'') (\<lambda>e.
     Inr [(''base'', b), (''lv'', l), (''rv'', r), (''epi'', e)]))))"

definition ldrb_angles :: "(string \<times> int) list" where
  "ldrb_angles =
     [(''alpha_endo_lv'', 60), (''alpha_epi_lv'', - 60), (''beta_endo_lv'', 0), (''beta_epi_lv'', 0)]"

text \<open>\<open>getattr(system, attr)\<close>.\<close>

definition system_attr :: "'o fiber_system \<Rightarrow> string \<Rightarrow> error + 'o" where
  "system_attr s attr =
     (if attr = ''fiber'' then Inr (fiber s)
      else if attr = ''sheet'' then Inr (sheet s)
      else if attr = ''sheet_normal'' then Inr (sheet_normal s)
      else Inl (AttributeError attr))"

text \<open>The loop over the attributes: one checkpoint file per attribute.\<close>

fun write_checkpoints ::
  "('o, 'r) libs \<Rightarrow> 'o fiber_system \<Rightarrow> string list \<Rightarrow> ('o, 'r, unit) prog" where
  "write_checkpoints L s [] = done_ok"
| "write_checkpoints L s (attr # attrs) =
     then_do (lift (system_attr s attr)) (\<lambda>f.
     then_do (call_writer (WriteCheckpoint (xdmf_path attr) f attr 0.0 HDF5 False)
                (write_checkpoint L (xdmf_path attr) f attr 0.0 HDF5 False)) (\<lambda>_.
     write_checkpoints L s attrs))"

definition fiber_stage :: "('o, 'r) libs \<Rightarrow> ('o, 'r, unit) prog" where
  "fiber_stage L =
     (\<lambda>w. if \<not> is_file (files w) fiber_file
          then
            then_do (read_folder L datadir) (\<lambda>geo.
            then_do (lift (ldrb_markers geo)) (\<lambda>mk.
            then_do (call_pure (DolfinLdrb (mesh geo) ''P_1'' (ffun geo) mk ldrb_angles)
                       (dolfin_ldrb L (mesh geo) ''P_1'' (ffun geo) mk ldrb_angles)) (\<lambda>s.
            write_checkpoints L s [''fiber'', ''sheet'', ''sheet_normal'']))) w
          else done_ok w)"

subsection \<open>Create purkinje system (lines 89 to 163)\<close>

text \<open>\<open>msh.field_data[name][0]\<close>.\<close>

definition region_tag :: "msh \<Rightarrow> string \<Rightarrow> error + int" where
  "region_tag m name = bind_err (lookup (field_data m) name) first_elem"

text \<open>
  \<open>[i for i, x in enumerate(...) if x[0] == tag]\<close>: the indices of the blocks whose first
  cell carries the tag. \<open>x[0]\<close> is read for every block.
\<close>

fun select_inds :: "int \<Rightarrow> nat \<Rightarrow> int list list \<Rightarrow> error + nat list" where
  "select_inds tag i [] = Inr []"
| "select_inds tag i (x # xs) =
     bind_err (first_elem x) (\<lambda>t.
     bind_err (select_inds tag (Suc i) xs) (\<lambda>rest.
     Inr (if t = tag then i # rest else rest)))"

text \<open>\<open>[msh.cells[i].data for i in inds]\<close>.\<close>

fun gather :: "'a list \<Rightarrow> nat list \<Rightarrow> error + 'a list" where
  "gather cs [] = Inr []"
| "gather cs (i # inds) =
     bind_err (item cs i) (\<lambda>c.
     bind_err (gather cs inds) (\<lambda>rest.
     Inr (c # rest)))"

text \<open>Lines 95 to 97 (and 140 to 142): the connectivity of one endocardium.\<close>

definition endo_connectivity :: "msh \<Rightarrow> string \<Rightarrow> error + array2" where
  "endo_connectivity m name =
     bind_err (region_tag m name) (\<lambda>tag.
     bind_err (lookup (cell_data m) ''gmsh:physical'') (\<lambda>physical.
     bind_err (select_inds tag 0 physical) (\<lambda>inds.
     bind_err (gather (cells m) inds) (\<lambda>blocks.
     np_vstack blocks))))"

text \<open>Line 106 (and 148): the index of the vertex closest to the point.\<close>

definition nearest_vertex :: "float64_arith \<Rightarrow> vec3 list \<Rightarrow> vec3 \<Rightarrow> error + nat" where
  "nearest_vertex A verts init_node = argmin (np_linalg_norm A (np_subtract A verts init_node))"

text \<open>
  One tree stage. The two blocks of the source differ in the output file, the name of the
  region, the approximate initial node and the parameters; both seed with 1234.
\<close>

definition tree_stage ::
  "path \<Rightarrow> string \<Rightarrow> vec3 \<Rightarrow> fractal_tree_parameters \<Rightarrow> ('o, 'r) libs \<Rightarrow> ('o, 'r, unit) prog" where
  "tree_stage tree_file name init_node param L =
     (\<lambda>w. if \<not> is_file (files w) tree_file
          then
            then_do (read_mesh L msh_file) (\<lambda>m.
            then_do (lift (endo_connectivity m name)) (\<lambda>connectivity.
            then_do (lift (nearest_vertex (numpy L) (points m) init_node)) (\<lambda>index.
            then_do (call_pure (MeshInit (points m) connectivity (points m ! index))
                       (Mesh L (points m) connectivity (points m ! index))) (\<lambda>tmesh.
            then_do (seed_rng L 1234) (\<lambda>_.
            grow L tmesh param))))) w
          else done_ok w)"

definition lv_param :: fractal_tree_parameters where
  "lv_param =
     \<lparr>filename = path_join datadir (stem lv_file), init_length = 7.0, N_it = 12,
      length_p = 0.5, initial_direction = [1, 0, 0]\<rparr>"

definition rv_param :: fractal_tree_parameters where
  "rv_param =
     \<lparr>filename = path_join datadir (stem rv_file), init_length = 9.7, N_it = 15,
      length_p = 0.5, initial_direction = [1, 0, 0]\<rparr>"

text \<open>The approximate initial nodes, found by eye in Paraview (lines 100 and 146).\<close>

definition lv_init_node :: vec3 where
  "lv_init_node = (0, 2.34484, 0.19)"

definition rv_init_node :: vec3 where
  "rv_init_node = (0, 3.19, 0.19)"

definition lv_stage :: "('o, 'r) libs \<Rightarrow> ('o, 'r, unit) prog" where
  "lv_stage = tree_stage lv_file ''ENDO_LV'' lv_init_node lv_param"

definition rv_stage :: "('o, 'r) libs \<Rightarrow> ('o, 'r, unit) prog" where
  "rv_stage = tree_stage rv_file ''ENDO_RV'' rv_init_node rv_param"

subsection \<open>The script\<close>

definition run :: "('o, 'r) libs \<Rightarrow> ('o, 'r, unit) prog" where
  "run L =
     then_do (mesh_stage L) (\<lambda>_.
     then_do (fiber_stage L) (\<lambda>_.
     then_do (lv_stage L) (\<lambda>_.
     rv_stage L)))"

section \<open>What the statements observe\<close>

text \<open>The library calls a program adds to the log.\<close>

definition new_calls :: "('o, 'r) world \<Rightarrow> ('o, 'r) world \<Rightarrow> ('o, 'r) call list" where
  "new_calls w w' = drop (length (calls w)) (calls w')"

text \<open>The keyword arguments of the mesh generator other than the characteristic length.\<close>

definition shape_parameters :: "(string \<times> real) list \<Rightarrow> (string \<times> real) list" where
  "shape_parameters kw = filter (\<lambda>kv. fst kv \<noteq> ''char_length'') kw"

text \<open>The paths of the checkpoints written, in the order of the calls.\<close>

fun checkpoint_paths :: "('o, 'r) call list \<Rightarrow> path list" where
  "checkpoint_paths [] = []"
| "checkpoint_paths (WriteCheckpoint p f attr t enc app # cs) = p # checkpoint_paths cs"
| "checkpoint_paths (c # cs) = checkpoint_paths cs"

text \<open>
  The distance of a vertex to a point as numpy computes it: the norm of the row of
  differences.
\<close>

definition computed_distance :: "float64_arith \<Rightarrow> vec3 \<Rightarrow> vec3 \<Rightarrow> float64" where
  "computed_distance A v p =
     (case v of (x, y, z) \<Rightarrow> case p of (px, py, pz) \<Rightarrow>
        norm64 A (sub64 A x px, sub64 A y py, sub64 A z pz))"

text \<open>The Euclidean distance of two points, as the claims word it.\<close>

definition euclidean_distance :: "vec3 \<Rightarrow> vec3 \<Rightarrow> real" where
  "euclidean_distance u v =
     (case u of (x, y, z) \<Rightarrow> case v of (a, b, c) \<Rightarrow>
        sqrt ((x - a) * (x - a) + (y - b) * (y - b) + (z - c) * (z - c)))"

text \<open>
  The cells of a mesh with their tags: the rows of every block, each with the entry of the
  block's tag array at the same position.
\<close>

definition tagged_cells :: "int list list \<Rightarrow> array2 list \<Rightarrow> (int list \<times> int) list" where
  "tagged_cells physical blocks =
     concat (map (\<lambda>(x, blk). zip (rows blk) x) (zip physical blocks))"

text \<open>The selection as the claim words it: the cells whose own tag is the given one.\<close>

definition cells_with_tag :: "int list list \<Rightarrow> array2 list \<Rightarrow> int \<Rightarrow> int list list" where
  "cells_with_tag physical blocks tag =
     map fst (filter (\<lambda>ct. snd ct = tag) (tagged_cells physical blocks))"

text \<open>The selection as the code makes it: the blocks whose first tag is the given one.\<close>

definition blocks_with_first_tag :: "int list list \<Rightarrow> array2 list \<Rightarrow> int \<Rightarrow> array2 list" where
  "blocks_with_first_tag physical blocks tag =
     map snd (filter (\<lambda>xb. take 1 (fst xb) = [tag]) (zip physical blocks))"

text \<open>
  Every block carries one tag for all of its cells, and one tag per cell: what a reader
  that makes one block per physical group returns.
\<close>

definition uniform_blocks :: "int list list \<Rightarrow> array2 list \<Rightarrow> bool" where
  "uniform_blocks physical blocks =
     list_all (\<lambda>xb. length (fst xb) = length (rows (snd xb)) \<and>
                    list_all (\<lambda>t. take 1 (fst xb) = [t]) (fst xb))
       (zip physical blocks)"

section \<open>Sample inputs\<close>

text \<open>
  A mesh of four vertices and three blocks: one triangle of the left endocardium (tag 5),
  one of the right (tag 6) and one tetrahedron (tag 7).
\<close>

definition sample_msh :: msh where
  "sample_msh =
     \<lparr>points = [(0, 2, 0), (0, 2.3, 0.2), (0, 3.2, 0.2), (1, 0, 0)],
      cells = [\<lparr>ncols = 3, rows = [[0, 1, 3]]\<rparr>, \<lparr>ncols = 3, rows = [[1, 2, 3]]\<rparr>,
               \<lparr>ncols = 4, rows = [[0, 1, 2, 3]]\<rparr>],
      cell_data = [''gmsh:physical'' \<mapsto> [[5], [6], [7]]],
      field_data = [''ENDO_LV'' \<mapsto> [5, 2], ''ENDO_RV'' \<mapsto> [6, 2]]\<rparr>"

text \<open>The sample mesh with a left endocardial tag that no block carries.\<close>

definition unmatched_msh :: msh where
  "unmatched_msh = sample_msh\<lparr>field_data := [''ENDO_LV'' \<mapsto> [9, 2], ''ENDO_RV'' \<mapsto> [6, 2]]\<rparr>"

text \<open>
  A mesh whose only block of triangles holds a cell of each endocardium, as a reader that
  makes one block per run of cells of the same type returns.
\<close>

definition mixed_msh :: msh where
  "mixed_msh =
     \<lparr>points = [(0, 2, 0), (0, 2.3, 0.2), (0, 3.2, 0.2), (1, 0, 0)],
      cells = [\<lparr>ncols = 3, rows = [[0, 1, 3], [1, 2, 3]]\<rparr>],
      cell_data = [''gmsh:physical'' \<mapsto> [[5, 6]]],
      field_data = [''ENDO_LV'' \<mapsto> [5, 2], ''ENDO_RV'' \<mapsto> [6, 2]]\<rparr>"

text \<open>Two vertices, the first one at the left initial node, and the same two swapped.\<close>

definition near_far :: "vec3 list" where
  "near_far = [(0, 2.34484, 0.19), (1, 2.34484, 0.19)]"

definition far_near :: "vec3 list" where
  "far_near = [(1, 2.34484, 0.19), (0, 2.34484, 0.19)]"

text \<open>
  Three vertices; the first one is farther from the left initial node than the second,
  by \<open>2 ^ -30\<close> along the second coordinate.
\<close>

definition tiny :: real where
  "tiny = 1 / 2 ^ 30"

definition tie_verts :: "vec3 list" where
  "tie_verts = [(1, 2.34484 + tiny, 0.19), (1, 2.34484, 0.19), (2, 2.34484, 0.19)]"

text \<open>An arithmetic that does not round, for the sample libraries.\<close>

definition exact_norm :: "fvec3 \<Rightarrow> float64" where
  "exact_norm r =
     (case r of
        (Finite a, Finite b, Finite c) \<Rightarrow> Finite (sqrt (a * a + b * b + c * c))
      | _ \<Rightarrow> NaN)"

definition exact :: float64_arith where
  "exact = \<lparr>sub64 = (\<lambda>a b. Finite (a - b)), norm64 = exact_norm\<rparr>"

text \<open>
  Libraries that always succeed. Objects are numbers; the state of the generator is a
  number that the tree generator increments; every file written holds a short text; the
  arithmetic does not round.
\<close>

definition sample_libs :: "msh \<Rightarrow> (nat, nat) libs" where
  "sample_libs m =
     \<lparr>create_biv_ellipsoid = (\<lambda>d kw. ([(path_join d ''biv_ellipsoid.msh'', ''mesh'')], None)),
      from_folder =
        (\<lambda>fsys d. Inr \<lparr>mesh = 0, ffun = 1,
                        markers = [''BASE'' \<mapsto> [10, 2], ''ENDO_LV'' \<mapsto> [5, 2],
                                   ''ENDO_RV'' \<mapsto> [6, 2], ''EPI'' \<mapsto> [8, 2]]\<rparr>),
      dolfin_ldrb = (\<lambda>msh_obj space ff mk angles. Inr \<lparr>fiber = 2, sheet = 3, sheet_normal = 4\<rparr>),
      write_checkpoint = (\<lambda>p f attr t enc app. ([(p, attr)], None)),
      meshio_read = (\<lambda>b. Inr m),
      numpy = exact,
      Mesh = (\<lambda>verts connectivity init_node. Inr 7),
      random_seed = (\<lambda>s. nat s),
      generate_fractal_tree =
        (\<lambda>t param g. (([(filename param @ ''.vtu'', ''tree'')], None), Suc g))\<rparr>"

text \<open>
  The same libraries with the arithmetic of float64, and a mesh of the three vertices
  with one triangle of the left endocardium.
\<close>

definition ieee_libs :: "msh \<Rightarrow> (nat, nat) libs" where
  "ieee_libs m = (sample_libs m)\<lparr>numpy := ieee\<rparr>"

definition tie_msh :: msh where
  "tie_msh =
     \<lparr>points = tie_verts,
      cells = [\<lparr>ncols = 3, rows = [[0, 1, 2]]\<rparr>],
      cell_data = [''gmsh:physical'' \<mapsto> [[5]]],
      field_data = [''ENDO_LV'' \<mapsto> [5, 2], ''ENDO_RV'' \<mapsto> [6, 2]]\<rparr>"

definition no_files :: "(nat, nat) world" where
  "no_files = \<lparr>files = Map.empty, rng = 0, calls = []\<rparr>"

definition all_files :: "(nat, nat) world" where
  "all_files =
     \<lparr>files = [msh_file \<mapsto> ''mesh'', fiber_file \<mapsto> ''fiber'', lv_file \<mapsto> ''tree'',
               rv_file \<mapsto> ''tree''],
      rng = 0, calls = []\<rparr>"

definition mesh_only :: "(nat, nat) world" where
  "mesh_only = \<lparr>files = [msh_file \<mapsto> ''mesh''], rng = 0, calls = []\<rparr>"

definition mesh_and_fibers :: "(nat, nat) world" where
  "mesh_and_fibers =
     \<lparr>files = [msh_file \<mapsto> ''mesh'', fiber_file \<mapsto> ''fiber''], rng = 41,
      calls = [FromFolder datadir]\<rparr>"

definition lv_missing :: "(nat, nat) world" where
  "lv_missing =
     \<lparr>files = [msh_file \<mapsto> ''mesh'', fiber_file \<mapsto> ''fiber'', rv_file \<mapsto> ''tree''],
      rng = 0, calls = []\<rparr>"

definition sheets_deleted :: "(nat, nat) world" where
  "sheets_deleted =
     \<lparr>files = [msh_file \<mapsto> ''mesh'', fiber_file \<mapsto> ''fiber''], rng = 0, calls = []\<rparr>"

section \<open>Auxiliary facts\<close>

lemma paths:
  "msh_file = ''data/biv_ellipsoid.msh''"
  "fiber_file = ''data/fiber.xdmf''"
  "lv_file = ''data/lv_tree.vtu''"
  "rv_file = ''data/rv_tree.vtu''"
  by (simp_all add: msh_file_def fiber_file_def lv_file_def rv_file_def path_join_def datadir_def)

lemma stems: "stem lv_file = ''lv_tree''" "stem rv_file = ''rv_tree''"
  by (simp_all add: paths stem_def path_name_def Let_def)

lemma tree_filenames: "filename lv_param = ''data/lv_tree''" "filename rv_param = ''data/rv_tree''"
  by (simp_all add: lv_param_def rv_param_def stems path_join_def datadir_def)

lemmas prog_defs = then_do_def done_ok_def lift_def call_pure_def call_writer_def
  read_mesh_def read_folder_def seed_rng_def grow_def

lemma new_calls_append [simp]:
  "new_calls w (w\<lparr>files := f, rng := g, calls := calls w @ cs\<rparr>) = cs"
  "new_calls w (w\<lparr>files := f, calls := calls w @ cs\<rparr>) = cs"
  "new_calls w (w\<lparr>calls := calls w @ cs\<rparr>) = cs"
  "new_calls w w = []"
  by (simp_all add: new_calls_def)

lemma apply_writes_Nil [simp]: "apply_writes [] f = f"
  by (simp add: apply_writes_def)

lemma apply_writes_Cons: "apply_writes ((q, b) # ws) f = apply_writes ws (f(q \<mapsto> b))"
  by (simp add: apply_writes_def)

lemma biv_kwargs_shape:
  "length (shape_parameters biv_kwargs) = 16"
  "length biv_kwargs = 17"
  "filter (\<lambda>kv. fst kv = ''char_length'') biv_kwargs = [(''char_length'', 0.2)]"
  "distinct (map fst biv_kwargs)"
  by (simp_all add: shape_parameters_def biv_kwargs_def)

lemma apply_writes_cong: "f p = g p \<Longrightarrow> apply_writes ws f p = apply_writes ws g p"
proof (induction ws arbitrary: f g)
  case Nil
  then show ?case by simp
next
  case (Cons x ws)
  obtain q b where x: "x = (q, b)" by (cases x)
  have "(f(q \<mapsto> b)) p = (g(q \<mapsto> b)) p"
    using Cons.prems by simp
  then show ?case
    unfolding x apply_writes_Cons by (rule Cons.IH)
qed

lemma apply_writes_other: "p \<notin> fst ` set ws \<Longrightarrow> apply_writes ws f p = f p"
proof (induction ws arbitrary: f)
  case Nil
  then show ?case by simp
next
  case (Cons x ws)
  obtain q b where x: "x = (q, b)" by (cases x)
  from Cons.prems have "p \<noteq> q" and "p \<notin> fst ` set ws"
    by (auto simp: x)
  then show ?case
    unfolding x apply_writes_Cons by (simp add: Cons.IH)
qed

lemma apply_writes_keeps_files: "is_file f p \<Longrightarrow> is_file (apply_writes ws f) p"
proof (induction ws arbitrary: f)
  case Nil
  then show ?case by simp
next
  case (Cons x ws)
  obtain q b where x: "x = (q, b)" by (cases x)
  have "is_file (f(q \<mapsto> b)) p"
    using Cons.prems by (simp add: is_file_def)
  then show ?case
    unfolding x apply_writes_Cons by (rule Cons.IH)
qed

lemma apply_writes_makes_files: "p \<in> fst ` set ws \<Longrightarrow> is_file (apply_writes ws f) p"
proof (induction ws arbitrary: f)
  case Nil
  then show ?case by simp
next
  case (Cons x ws)
  obtain q b where x: "x = (q, b)" by (cases x)
  show ?case
  proof (cases "p \<in> fst ` set ws")
    case True
    then show ?thesis
      unfolding x apply_writes_Cons by (rule Cons.IH)
  next
    case False
    with Cons.prems have "p = q" by (simp add: x)
    then have "is_file (f(q \<mapsto> b)) p" by (simp add: is_file_def)
    then show ?thesis
      unfolding x apply_writes_Cons by (rule apply_writes_keeps_files)
  qed
qed

subsection \<open>The paths through a tree stage\<close>

lemma tree_stage_skip:
  "is_file (files w) tf \<Longrightarrow> tree_stage tf name p prm L w = (Inr (), w)"
  by (simp add: tree_stage_def prog_defs)

lemma tree_stage_read_fails:
  assumes "\<not> is_file (files w) tf" and "read_path L (files w) msh_file = Inl e"
  shows "tree_stage tf name p prm L w = (Inl e, w\<lparr>calls := calls w @ [MeshioRead msh_file]\<rparr>)"
  using assms by (simp add: tree_stage_def prog_defs)

lemma tree_stage_connectivity_fails:
  assumes "\<not> is_file (files w) tf" and "read_path L (files w) msh_file = Inr m"
    and "endo_connectivity m name = Inl e"
  shows "tree_stage tf name p prm L w = (Inl e, w\<lparr>calls := calls w @ [MeshioRead msh_file]\<rparr>)"
  using assms by (simp add: tree_stage_def prog_defs)

lemma tree_stage_nearest_fails:
  assumes "\<not> is_file (files w) tf" and "read_path L (files w) msh_file = Inr m"
    and "endo_connectivity m name = Inr c" and "nearest_vertex (numpy L) (points m) p = Inl e"
  shows "tree_stage tf name p prm L w = (Inl e, w\<lparr>calls := calls w @ [MeshioRead msh_file]\<rparr>)"
  using assms by (simp add: tree_stage_def prog_defs)

lemma tree_stage_mesh_fails:
  assumes "\<not> is_file (files w) tf" and "read_path L (files w) msh_file = Inr m"
    and "endo_connectivity m name = Inr c" and "nearest_vertex (numpy L) (points m) p = Inr i"
    and "Mesh L (points m) c (points m ! i) = Inl e"
  shows "tree_stage tf name p prm L w =
    (Inl e, w\<lparr>calls := calls w @ [MeshioRead msh_file, MeshInit (points m) c (points m ! i)]\<rparr>)"
  using assms by (simp add: tree_stage_def prog_defs)

lemma tree_stage_grows:
  assumes "\<not> is_file (files w) tf" and "read_path L (files w) msh_file = Inr m"
    and "endo_connectivity m name = Inr c" and "nearest_vertex (numpy L) (points m) p = Inr i"
    and "Mesh L (points m) c (points m ! i) = Inr t"
    and "generate_fractal_tree L t prm (random_seed L 1234) = ((ws, e), g)"
  shows "tree_stage tf name p prm L w =
    (outcome e,
     w\<lparr>files := apply_writes ws (files w), rng := g,
       calls := calls w @ [MeshioRead msh_file, MeshInit (points m) c (points m ! i),
                          RandomSeed 1234, GenerateFractalTree t prm (random_seed L 1234)]\<rparr>)"
  using assms by (simp add: tree_stage_def prog_defs)

text \<open>
  The five paths together: what a tree stage that runs does to a world is fixed by the
  content of the mesh file alone.
\<close>

lemma tree_stage_effect:
  "\<exists>out cs ws g.
     (\<forall>w. files w msh_file = b \<longrightarrow> \<not> is_file (files w) tf \<longrightarrow>
        tree_stage tf name p prm L w =
          (out, w\<lparr>files := apply_writes ws (files w),
                 rng := (case g of None \<Rightarrow> rng w | Some x \<Rightarrow> x),
                 calls := calls w @ cs\<rparr>)) \<and>
     (\<forall>m q s. GenerateFractalTree m q s \<in> set cs \<longrightarrow>
        s = random_seed L 1234 \<and> (\<exists>pre. cs = pre @ [RandomSeed 1234, GenerateFractalTree m q s]))"
proof -
  define rd where "rd = (case b of None \<Rightarrow> Inl (FileNotFoundError msh_file) | Some x \<Rightarrow> meshio_read L x)"
  have rd: "read_path L (files w) msh_file = rd" if "files w msh_file = b" for w :: "('a, 'b) world"
    using that by (simp add: read_path_def rd_def)
  have stop: ?thesis
    if "\<And>w :: ('a, 'b) world. files w msh_file = b \<Longrightarrow> \<not> is_file (files w) tf \<Longrightarrow>
          tree_stage tf name p prm L w = (out, w\<lparr>calls := calls w @ cs\<rparr>)"
      and "\<forall>m q s. GenerateFractalTree m q s \<notin> set cs" for out cs
    apply (rule exI[of _ out], rule exI[of _ cs], rule exI[of _ "[]"], rule exI[of _ None])
    using that by simp
  show ?thesis
  proof (cases rd)
    case (Inl e)
    show ?thesis
      by (rule stop[of "Inl e" "[MeshioRead msh_file]"])
        (simp_all add: tree_stage_read_fails rd Inl)
  next
    case m: (Inr m)
    show ?thesis
    proof (cases "endo_connectivity m name")
      case (Inl e)
      show ?thesis
        by (rule stop[of "Inl e" "[MeshioRead msh_file]"])
          (simp_all add: tree_stage_connectivity_fails[where m=m] rd m Inl)
    next
      case c: (Inr c)
      show ?thesis
      proof (cases "nearest_vertex (numpy L) (points m) p")
        case (Inl e)
        show ?thesis
          by (rule stop[of "Inl e" "[MeshioRead msh_file]"])
            (simp_all add: tree_stage_nearest_fails[where m=m and c=c] rd m c Inl)
      next
        case i: (Inr i)
        show ?thesis
        proof (cases "Mesh L (points m) c (points m ! i)")
          case (Inl e)
          show ?thesis
            by (rule stop[of "Inl e" "[MeshioRead msh_file, MeshInit (points m) c (points m ! i)]"])
              (simp_all add: tree_stage_mesh_fails[where m=m and c=c and i=i] rd m c i Inl)
        next
          case t: (Inr t)
          obtain ws e g where r: "generate_fractal_tree L t prm (random_seed L 1234) = ((ws, e), g)"
            by (metis prod.exhaust)
          show ?thesis
            apply (rule exI[of _ "outcome e"])
            apply (rule exI[of _ "[MeshioRead msh_file, MeshInit (points m) c (points m ! i),
                          RandomSeed 1234, GenerateFractalTree t prm (random_seed L 1234)]"])
            apply (rule exI[of _ ws], rule exI[of _ "Some g"])
            apply (simp add: tree_stage_grows[where m=m and c=c and i=i and t=t, OF _ _ _ _ _ r] rd m c i t)
            done
        qed
      qed
    qed
  qed
qed

lemma tree_stage_noninterference:
  assumes "files w1 msh_file = files w2 msh_file"
    and "\<not> is_file (files w1) tf" and "\<not> is_file (files w2) tf"
  shows "fst (tree_stage tf name p prm L w1) = fst (tree_stage tf name p prm L w2)"
    and "new_calls w1 (snd (tree_stage tf name p prm L w1)) =
         new_calls w2 (snd (tree_stage tf name p prm L w2))"
    and "files (snd (tree_stage tf name p prm L w1)) tf = files (snd (tree_stage tf name p prm L w2)) tf"
    and "\<forall>m q g. GenerateFractalTree m q g \<in> set (new_calls w1 (snd (tree_stage tf name p prm L w1))) \<longrightarrow>
          g = random_seed L 1234 \<and>
          (\<exists>pre. new_calls w1 (snd (tree_stage tf name p prm L w1)) =
                  pre @ [RandomSeed 1234, GenerateFractalTree m q g])"
proof -
  obtain out cs ws g where
    eq: "\<And>w :: ('a, 'b) world. files w msh_file = files w2 msh_file \<Longrightarrow> \<not> is_file (files w) tf \<Longrightarrow>
        tree_stage tf name p prm L w =
          (out, w\<lparr>files := apply_writes ws (files w),
                 rng := (case g of None \<Rightarrow> rng w | Some x \<Rightarrow> x),
                 calls := calls w @ cs\<rparr>)"
    and sd: "\<forall>m q s. GenerateFractalTree m q s \<in> set cs \<longrightarrow>
        s = random_seed L 1234 \<and> (\<exists>pre. cs = pre @ [RandomSeed 1234, GenerateFractalTree m q s])"
    using tree_stage_effect[of "files w2 msh_file" tf name p prm L] by blast
  have f: "files w1 tf = files w2 tf"
    using assms(2,3) by (simp add: is_file_def)
  have e1: "tree_stage tf name p prm L w1 =
          (out, w1\<lparr>files := apply_writes ws (files w1),
                 rng := (case g of None \<Rightarrow> rng w1 | Some x \<Rightarrow> x),
                 calls := calls w1 @ cs\<rparr>)"
    by (rule eq) (use assms in simp_all)
  have e2: "tree_stage tf name p prm L w2 =
          (out, w2\<lparr>files := apply_writes ws (files w2),
                 rng := (case g of None \<Rightarrow> rng w2 | Some x \<Rightarrow> x),
                 calls := calls w2 @ cs\<rparr>)"
    by (rule eq) (use assms in simp_all)
  show "fst (tree_stage tf name p prm L w1) = fst (tree_stage tf name p prm L w2)"
    by (simp add: e1 e2)
  show "new_calls w1 (snd (tree_stage tf name p prm L w1)) =
         new_calls w2 (snd (tree_stage tf name p prm L w2))"
    by (simp add: e1 e2)
  show "files (snd (tree_stage tf name p prm L w1)) tf = files (snd (tree_stage tf name p prm L w2)) tf"
    by (simp add: e1 e2 apply_writes_cong[of "files w1" tf "files w2", OF f])
  show "\<forall>m q g. GenerateFractalTree m q g \<in> set (new_calls w1 (snd (tree_stage tf name p prm L w1))) \<longrightarrow>
          g = random_seed L 1234 \<and>
          (\<exists>pre. new_calls w1 (snd (tree_stage tf name p prm L w1)) =
                  pre @ [RandomSeed 1234, GenerateFractalTree m q g])"
    using sd by (simp add: e1)
qed

subsection \<open>The sample inputs evaluated\<close>

lemma sample_connectivity:
  "endo_connectivity sample_msh ''ENDO_LV'' = Inr \<lparr>ncols = 3, rows = [[0, 1, 3]]\<rparr>"
  "endo_connectivity sample_msh ''ENDO_RV'' = Inr \<lparr>ncols = 3, rows = [[1, 2, 3]]\<rparr>"
  by (simp_all add: endo_connectivity_def sample_msh_def region_tag_def lookup_def first_elem_def
      bind_err_def item_def np_vstack_def)

lemma sample_nearest:
  "nearest_vertex (numpy (sample_libs sample_msh)) (points sample_msh) lv_init_node = Inr 1"
  "nearest_vertex (numpy (sample_libs sample_msh)) (points sample_msh) rv_init_node = Inr 2"
  by (simp_all add: nearest_vertex_def sample_msh_def np_subtract_def np_linalg_norm_def
      sample_libs_def exact_def exact_norm_def argmin_def isnan_def lv_init_node_def
      rv_init_node_def)

lemma sample_read:
  "files w msh_file = Some b \<Longrightarrow> read_path (sample_libs m) (files w) msh_file = Inr m"
  by (simp add: read_path_def sample_libs_def)

lemma sample_lv_stage:
  assumes "files w msh_file = Some b" and "\<not> is_file (files w) lv_file"
  shows "lv_stage (sample_libs sample_msh) w =
    (Inr (),
     w\<lparr>files := (files w)(lv_file \<mapsto> ''tree''), rng := 1235,
       calls := calls w @ [MeshioRead msh_file,
                          MeshInit (points sample_msh) \<lparr>ncols = 3, rows = [[0, 1, 3]]\<rparr> (0, 2.3, 0.2),
                          RandomSeed 1234, GenerateFractalTree 7 lv_param 1234]\<rparr>)"
proof -
  let ?L = "sample_libs sample_msh"
  have rd: "read_path ?L (files w) msh_file = Inr sample_msh"
    using assms(1) by (rule sample_read)
  have ms: "Mesh ?L (points sample_msh) \<lparr>ncols = 3, rows = [[0, 1, 3]]\<rparr> (points sample_msh ! 1) = Inr 7"
    by (simp add: sample_libs_def)
  have gr: "generate_fractal_tree ?L 7 lv_param (random_seed ?L 1234) = (([(lv_file, ''tree'')], None), 1235)"
    by (simp add: sample_libs_def tree_filenames paths)
  have pt: "points sample_msh ! Suc 0 = (0, 2.3, 0.2)"
    by (simp add: sample_msh_def)
  have sd: "random_seed ?L 1234 = 1234"
    by (simp add: sample_libs_def)
  show ?thesis
    unfolding lv_stage_def
      tree_stage_grows[OF assms(2) rd sample_connectivity(1) sample_nearest(1) ms gr]
    by (simp add: pt sd outcome_def apply_writes_Cons)
qed


lemma sample_seed: "random_seed (sample_libs m) s = nat s"
  by (simp add: sample_libs_def)

subsection \<open>A tag that no block carries\<close>

lemma select_inds_none:
  "\<forall>x\<in>set physical. take 1 x \<noteq> [tag] \<Longrightarrow>
   select_inds tag i physical = (if [] \<in> set physical then Inl IndexError else Inr [])"
proof (induction physical arbitrary: i)
  case Nil
  then show ?case by simp
next
  case (Cons x xs)
  then have ih: "select_inds tag (Suc i) xs = (if [] \<in> set xs then Inl IndexError else Inr [])"
    by simp
  show ?case
  proof (cases x)
    case Nil
    then show ?thesis by (simp add: first_elem_def bind_err_def)
  next
    case (Cons t ts)
    with Cons.prems have "t \<noteq> tag" by simp
    with Cons show ?thesis by (simp add: first_elem_def bind_err_def ih)
  qed
qed

lemma endo_connectivity_none:
  assumes "region_tag m name = Inr tag" and "cell_data m ''gmsh:physical'' = Some physical"
    and "\<forall>x\<in>set physical. take 1 x \<noteq> [tag]"
  shows "endo_connectivity m name = Inl (if [] \<in> set physical then IndexError else ValueError)"
  using assms(1,2)
  by (simp add: endo_connectivity_def bind_err_def lookup_def select_inds_none[OF assms(3)]
      np_vstack_def)

subsection \<open>The paths through the fiber stage\<close>

lemma xdmf_paths:
  "xdmf_path ''fiber'' = ''data/fiber.xdmf''"
  "xdmf_path ''sheet'' = ''data/sheet.xdmf''"
  "xdmf_path ''sheet_normal'' = ''data/sheet_normal.xdmf''"
  by (simp_all add: xdmf_path_def datadir_def)

lemma checkpoint_paths_append:
  "checkpoint_paths (cs @ ds) = checkpoint_paths cs @ checkpoint_paths ds"
  by (induction cs rule: checkpoint_paths.induct) simp_all

lemma write_checkpoints_calls:
  "\<exists>cs. calls (snd (write_checkpoints L s attrs w)) = calls w @ cs \<and>
     (fst (write_checkpoints L s attrs w) = Inr () \<longrightarrow> checkpoint_paths cs = map xdmf_path attrs)"
proof (induction attrs arbitrary: w)
  case Nil
  then show ?case by (simp add: done_ok_def)
next
  case (Cons a attrs)
  show ?case
  proof (cases "system_attr s a")
    case (Inl e)
    then show ?thesis by (simp add: then_do_def lift_def)
  next
    case (Inr f)
    let ?ev = "WriteCheckpoint (xdmf_path a) f a 0 HDF5 False :: ('a, 'b) call"
    let ?r = "write_checkpoint L (xdmf_path a) f a 0 HDF5 False"
    let ?w = "w\<lparr>files := apply_writes (fst ?r) (files w), calls := calls w @ [?ev]\<rparr>"
    show ?thesis
    proof (cases "snd ?r")
      case (Some e)
      have "write_checkpoints L s (a # attrs) w = (Inl e, ?w)"
        by (simp add: then_do_def lift_def call_writer_def outcome_def Inr Some)
      then show ?thesis by (simp del: write_checkpoints.simps)
    next
      case None
      have eq: "write_checkpoints L s (a # attrs) w = write_checkpoints L s attrs ?w"
        by (simp add: then_do_def lift_def call_writer_def outcome_def Inr None)
      from Cons.IH[of ?w] obtain cs where
        cs: "calls (snd (write_checkpoints L s attrs ?w)) = calls ?w @ cs"
        "fst (write_checkpoints L s attrs ?w) = Inr () \<longrightarrow> checkpoint_paths cs = map xdmf_path attrs"
        by blast
      show ?thesis
        unfolding eq by (rule exI[of _ "?ev # cs"]) (use cs in simp)
    qed
  qed
qed

lemma fiber_stage_skip:
  "is_file (files w) fiber_file \<Longrightarrow> fiber_stage L w = (Inr (), w)"
  by (simp add: fiber_stage_def done_ok_def)

lemma fiber_stage_completes:
  assumes "\<not> is_file (files w) fiber_file" and "fst (fiber_stage L w) = Inr ()"
  shows "checkpoint_paths (new_calls w (snd (fiber_stage L w))) =
    [xdmf_path ''fiber'', xdmf_path ''sheet'', xdmf_path ''sheet_normal'']"
proof (cases "from_folder L (files w) datadir")
  case (Inl e)
  with assms show ?thesis by (simp add: fiber_stage_def prog_defs)
next
  case geo: (Inr geo)
  show ?thesis
  proof (cases "ldrb_markers geo")
    case (Inl e)
    with assms geo show ?thesis by (simp add: fiber_stage_def prog_defs)
  next
    case mk: (Inr mk)
    show ?thesis
    proof (cases "dolfin_ldrb L (mesh geo) ''P_1'' (ffun geo) mk ldrb_angles")
      case (Inl e)
      with assms geo mk show ?thesis by (simp add: fiber_stage_def prog_defs)
    next
      case s: (Inr s)
      let ?w = "w\<lparr>calls := calls w @ [FromFolder datadir,
                   DolfinLdrb (mesh geo) ''P_1'' (ffun geo) mk ldrb_angles]\<rparr>"
      let ?attrs = "[''fiber'', ''sheet'', ''sheet_normal'']"
      have eq: "fiber_stage L w = write_checkpoints L s ?attrs ?w"
        using assms(1) geo mk s by (simp add: fiber_stage_def prog_defs del: write_checkpoints.simps)
      obtain cs where cs: "calls (snd (write_checkpoints L s ?attrs ?w)) = calls ?w @ cs"
        "fst (write_checkpoints L s ?attrs ?w) = Inr () \<longrightarrow> checkpoint_paths cs = map xdmf_path ?attrs"
        using write_checkpoints_calls[of L s ?attrs ?w] by blast
      have "new_calls w (snd (fiber_stage L w)) =
          [FromFolder datadir, DolfinLdrb (mesh geo) ''P_1'' (ffun geo) mk ldrb_angles] @ cs"
        unfolding eq new_calls_def cs(1) by simp
      moreover have "checkpoint_paths cs = map xdmf_path ?attrs"
        using cs(2) assms(2) unfolding eq by blast
      ultimately show ?thesis
        by (simp add: checkpoint_paths_append)
    qed
  qed
qed

lemma fiber_stage_succeeds:
  assumes "\<not> is_file (files w) fiber_file"
    and "from_folder L (files w) datadir = Inr geo"
    and "ldrb_markers geo = Inr mk"
    and "dolfin_ldrb L (mesh geo) ''P_1'' (ffun geo) mk ldrb_angles = Inr s"
    and "write_checkpoint L (xdmf_path ''fiber'') (fiber s) ''fiber'' 0 HDF5 False = (ws1, None)"
    and "write_checkpoint L (xdmf_path ''sheet'') (sheet s) ''sheet'' 0 HDF5 False = (ws2, None)"
    and "write_checkpoint L (xdmf_path ''sheet_normal'') (sheet_normal s) ''sheet_normal'' 0 HDF5 False
          = (ws3, None)"
  shows "fiber_stage L w =
    (Inr (),
     w\<lparr>files := apply_writes ws3 (apply_writes ws2 (apply_writes ws1 (files w))),
       calls := calls w @
         [FromFolder datadir, DolfinLdrb (mesh geo) ''P_1'' (ffun geo) mk ldrb_angles,
          WriteCheckpoint (xdmf_path ''fiber'') (fiber s) ''fiber'' 0 HDF5 False,
          WriteCheckpoint (xdmf_path ''sheet'') (sheet s) ''sheet'' 0 HDF5 False,
          WriteCheckpoint (xdmf_path ''sheet_normal'') (sheet_normal s) ''sheet_normal'' 0 HDF5 False]\<rparr>)"
  using assms by (simp add: fiber_stage_def prog_defs system_attr_def outcome_def)

lemma sample_markers:
  "ldrb_markers \<lparr>mesh = 0 :: nat, ffun = 1,
      markers = [''BASE'' \<mapsto> [10, 2], ''ENDO_LV'' \<mapsto> [5, 2], ''ENDO_RV'' \<mapsto> [6, 2],
                 ''EPI'' \<mapsto> [8, 2]]\<rparr> =
    Inr [(''base'', 10), (''lv'', 5), (''rv'', 6), (''epi'', 8)]"
  by (simp add: ldrb_markers_def marker_def lookup_def first_elem_def bind_err_def)

subsection \<open>The order of float64\<close>

lemma float_ge_refl: "x \<noteq> NaN \<Longrightarrow> float_ge x x"
  by (cases x) simp_all

lemma float_ge_total: "x \<noteq> NaN \<Longrightarrow> y \<noteq> NaN \<Longrightarrow> float_ge x y \<or> float_ge y x"
  by (cases x; cases y) auto

lemma float_ge_trans: "float_ge x y \<Longrightarrow> float_ge y z \<Longrightarrow> float_ge x z"
  by (cases x; cases y; cases z) auto

lemma float_ge_antisym: "float_ge x y \<Longrightarrow> float_ge y x \<Longrightarrow> x = y"
  by (cases x; cases y) auto

lemma float_ge_NaN [simp]: "\<not> float_ge NaN y" "\<not> float_ge x NaN"
  by (cases x; simp)+

subsection \<open>The nearest vertex\<close>

lemma argmin_scan_least:
  assumes "ys = pre @ xs" and "length pre = i" and "bi < i" and "mp = ys ! bi"
    and "mp \<noteq> NaN" and "NaN \<notin> set pre" and "\<forall>k<i. float_ge (ys ! k) mp"
  shows "argmin_scan mp bi i xs < length ys \<and>
    (NaN \<in> set xs \<longrightarrow> ys ! argmin_scan mp bi i xs = NaN) \<and>
    (NaN \<notin> set xs \<longrightarrow> (\<forall>k<length ys. float_ge (ys ! k) (ys ! argmin_scan mp bi i xs)))"
  using assms
proof (induction xs arbitrary: pre mp bi i)
  case Nil
  then show ?case by simp
next
  case (Cons x xs)
  have ys: "ys = (pre @ [x]) @ xs" and len: "length (pre @ [x]) = Suc i"
    using Cons.prems(1,2) by simp_all
  have x: "ys ! i = x"
    using Cons.prems(1,2) by (simp add: nth_append)
  have ilt: "i < length ys"
    using Cons.prems(1,2) by simp
  show ?case
  proof (cases "x = NaN")
    case True
    then show ?thesis
      using x ilt by (simp add: isnan_def)
  next
    case xn: False
    then have pre': "NaN \<notin> set (pre @ [x])"
      using Cons.prems(6) by auto
    show ?thesis
    proof (cases "float_ge x mp")
      case True
      have "\<forall>k<Suc i. float_ge (ys ! k) mp"
      proof (intro allI impI)
        fix k assume "k < Suc i"
        then consider "k < i" | "k = i" by linarith
        then show "float_ge (ys ! k) mp"
        proof cases
          case 1
          with Cons.prems(7) show ?thesis by simp
        next
          case 2
          with True show ?thesis by (simp add: x)
        qed
      qed
      from Cons.IH[OF ys len _ Cons.prems(4,5) pre' this] Cons.prems(3) True xn
      show ?thesis by auto
    next
      case False
      with float_ge_total[OF xn Cons.prems(5)] have mx: "float_ge mp x" by blast
      have "\<forall>k<Suc i. float_ge (ys ! k) x"
      proof (intro allI impI)
        fix k assume "k < Suc i"
        then consider "k < i" | "k = i" by linarith
        then show "float_ge (ys ! k) x"
        proof cases
          case 1
          with Cons.prems(7) have "float_ge (ys ! k) mp" by simp
          then show ?thesis using mx by (rule float_ge_trans)
        next
          case 2
          then show ?thesis using xn by (simp add: x float_ge_refl)
        qed
      qed
      from Cons.IH[OF ys len _ x[symmetric] xn pre' this] False xn
      show ?thesis by (auto simp: isnan_def)
    qed
  qed
qed

lemma argmin_least:
  assumes "argmin xs = Inr i"
  shows "i < length xs \<and> (NaN \<in> set xs \<longrightarrow> xs ! i = NaN) \<and>
    (NaN \<notin> set xs \<longrightarrow> (\<forall>k<length xs. float_ge (xs ! k) (xs ! i)))"
proof (cases xs)
  case Nil
  with assms show ?thesis by (simp add: argmin_def)
next
  case (Cons x rest)
  show ?thesis
  proof (cases "x = NaN")
    case True
    with assms show ?thesis by (simp add: argmin_def Cons isnan_def)
  next
    case False
    with assms have i: "argmin_scan x 0 1 rest = i"
      by (simp add: argmin_def Cons isnan_def)
    have 1: "xs = [x] @ rest" by (simp add: Cons)
    have 2: "length [x] = 1" by simp
    have 3: "(0::nat) < 1" by simp
    have 4: "x = xs ! 0" by (simp add: Cons)
    have 6: "NaN \<notin> set [x]" using False by simp
    have 7: "\<forall>k<1. float_ge (xs ! k) x" using False by (simp add: Cons float_ge_refl)
    from argmin_scan_least[OF 1 2 3 4 False 6 7] False show ?thesis
      unfolding i by (simp add: Cons)
  qed
qed

lemma argmin_total: "xs \<noteq> [] \<Longrightarrow> \<exists>i. argmin xs = Inr i"
  by (cases xs) (simp_all add: argmin_def)

lemma computed_distances:
  "np_linalg_norm A (np_subtract A verts p) = map (\<lambda>v. computed_distance A v p) verts"
  by (cases p) (auto simp: np_linalg_norm_def np_subtract_def computed_distance_def)

lemma nearest_vertex_least:
  assumes "nearest_vertex A verts p = Inr i"
  shows "i < length verts"
    and "NaN \<in> (\<lambda>v. computed_distance A v p) ` set verts \<Longrightarrow>
      computed_distance A (verts ! i) p = NaN"
    and "NaN \<notin> (\<lambda>v. computed_distance A v p) ` set verts \<Longrightarrow>
      \<forall>u\<in>set verts. float_ge (computed_distance A u p) (computed_distance A (verts ! i) p)"
proof -
  let ?ds = "map (\<lambda>v. computed_distance A v p) verts"
  from assms have "argmin ?ds = Inr i"
    by (simp add: nearest_vertex_def computed_distances)
  note am = argmin_least[OF this]
  show i: "i < length verts"
    using am by simp
  show "computed_distance A (verts ! i) p = NaN"
    if "NaN \<in> (\<lambda>v. computed_distance A v p) ` set verts"
    using am i that by simp
  show "\<forall>u\<in>set verts. float_ge (computed_distance A u p) (computed_distance A (verts ! i) p)"
    if "NaN \<notin> (\<lambda>v. computed_distance A v p) ` set verts"
  proof -
    have "\<forall>k<length verts. float_ge (computed_distance A (verts ! k) p)
        (computed_distance A (verts ! i) p)"
      using am i that by simp
    then show ?thesis
      by (metis in_set_conv_nth)
  qed
qed

lemma nearest_vertex_total: "verts \<noteq> [] \<Longrightarrow> \<exists>i. nearest_vertex A verts p = Inr i"
  by (simp add: nearest_vertex_def computed_distances argmin_total)

subsection \<open>What a tree stage hands to the mesh constructor\<close>

lemma tree_stage_mesh_init:
  assumes "\<not> is_file (files w) tf"
    and "MeshInit v c orig \<in> set (new_calls w (snd (tree_stage tf name p prm L w)))"
  shows "\<exists>m i. read_path L (files w) msh_file = Inr m \<and> endo_connectivity m name = Inr c \<and>
    nearest_vertex (numpy L) (points m) p = Inr i \<and> v = points m \<and> orig = points m ! i"
proof (cases "read_path L (files w) msh_file")
  case (Inl e)
  from assms(2) show ?thesis
    unfolding tree_stage_read_fails[OF assms(1) Inl] by simp
next
  case m: (Inr m)
  show ?thesis
  proof (cases "endo_connectivity m name")
    case (Inl e)
    from assms(2) show ?thesis
      unfolding tree_stage_connectivity_fails[OF assms(1) m Inl] by simp
  next
    case c: (Inr c')
    show ?thesis
    proof (cases "nearest_vertex (numpy L) (points m) p")
      case (Inl e)
      from assms(2) show ?thesis
        unfolding tree_stage_nearest_fails[OF assms(1) m c Inl] by simp
    next
      case i: (Inr i)
      show ?thesis
      proof (cases "Mesh L (points m) c' (points m ! i)")
        case (Inl e)
        from assms(2) show ?thesis
          unfolding tree_stage_mesh_fails[OF assms(1) m c i Inl] using m c i by simp
      next
        case t: (Inr t)
        obtain ws e g where r: "generate_fractal_tree L t prm (random_seed L 1234) = ((ws, e), g)"
          by (metis prod.exhaust)
        from assms(2) show ?thesis
          unfolding tree_stage_grows[OF assms(1) m c i t r] using m c i by simp
      qed
    qed
  qed
qed

subsection \<open>Rounding to float64, evaluated\<close>

lemma floor_log2:
  assumes "2 powi k \<le> x" and "x < 2 powi (k + 1)"
  shows "\<lfloor>log 2 x\<rfloor> = k"
proof -
  have "0 < (2::real) powi k" by simp
  with assms(1) have x: "0 < x" by linarith
  have a: "(2::real) powr real_of_int k = 2 powi k"
    by (rule powr_real_of_int') simp_all
  have b: "(2::real) powr real_of_int (k + 1) = 2 powi (k + 1)"
    by (rule powr_real_of_int') simp_all
  have "2 powr real_of_int k \<le> x \<and> x < 2 powr real_of_int (k + 1)"
    unfolding a b using assms by (rule conjI)
  moreover have "(1::real) < 2" by simp
  ultimately show ?thesis
    using floor_log_eq_powr_iff[OF x, of 2 k] by blast
qed

lemma round_half_even_near:
  assumes "y = of_int n + d" and "0 \<le> d" and "d < 1 / 2"
  shows "round_half_even y = n"
proof -
  have f: "\<lfloor>y\<rfloor> = n"
    by (rule floor_unique) (use assms in simp_all)
  have d: "y - of_int n = d"
    using assms(1) by simp
  show ?thesis
    unfolding round_half_even_def f Let_def d using assms(3) by simp
qed

text \<open>
  A positive number in the normal range whose quotient by the quantum is less than half
  above an integer is rounded down to that integer times the quantum.
\<close>

lemma round64_normal:
  fixes x :: real
  assumes "2 powi k \<le> x" and "x < 2 powi (k + 1)" and "- 1022 \<le> k"
    and "x / 2 powi (k - 52) = of_int n + d" and "0 \<le> d" and "d < 1 / 2"
    and "of_int n * (2::real) powi (k - 52) < 2 ^ 1024"
  shows "round64 x = Finite (of_int n * 2 powi (k - 52))"
proof -
  have "0 < (2::real) powi k" by simp
  with assms(1) have x: "0 < x" by linarith
  then have ax: "\<bar>x\<bar> = x" and sx: "sgn x = 1" and nz: "x \<noteq> 0"
    by simp_all
  have e: "max \<lfloor>log 2 x\<rfloor> (- 1022) = k"
    unfolding floor_log2[OF assms(1,2)] using assms(3) by simp
  have r: "round_half_even (x / 2 powi (k - 52)) = n"
    using assms(4,5,6) by (rule round_half_even_near)
  have no: "\<not> 2 ^ 1024 \<le> of_int n * (2::real) powi (k - 52)"
    using assms(7) by (simp only: not_le)
  show ?thesis
    unfolding round64_def ax e Let_def r sx using nz no by (simp only: if_False mult_1)
qed

lemma round64_dyadic:
  "round64 1 = Finite 1"
  "round64 2 = Finite 2"
  "round64 4 = Finite 4"
  "round64 (1 / 2 ^ 30) = Finite (1 / 2 ^ 30)"
  "round64 (1 / 2 ^ 60) = Finite (1 / 2 ^ 60)"
  "round64 (1 + 1 / 2 ^ 60) = Finite 1"
proof -
  have "round64 1 = Finite (of_int (2 ^ 52) * 2 powi (0 - 52))"
    by (rule round64_normal[where d = 0]) (simp_all add: power_int_def power_one_over)
  then show "round64 1 = Finite 1"
    by (simp add: power_int_def power_one_over)
  have "round64 2 = Finite (of_int (2 ^ 52) * 2 powi (1 - 52))"
    by (rule round64_normal[where d = 0]) (simp_all add: power_int_def power_one_over)
  then show "round64 2 = Finite 2"
    by (simp add: power_int_def power_one_over)
  have "round64 4 = Finite (of_int (2 ^ 52) * 2 powi (2 - 52))"
    by (rule round64_normal[where d = 0]) (simp_all add: power_int_def power_one_over)
  then show "round64 4 = Finite 4"
    by (simp add: power_int_def power_one_over)
  have "round64 (1 / 2 ^ 30) = Finite (of_int (2 ^ 52) * 2 powi (- 30 - 52))"
    by (rule round64_normal[where d = 0]) (simp_all add: power_int_def power_one_over)
  then show "round64 (1 / 2 ^ 30) = Finite (1 / 2 ^ 30)"
    by (simp add: power_int_def power_one_over)
  have "round64 (1 / 2 ^ 60) = Finite (of_int (2 ^ 52) * 2 powi (- 60 - 52))"
    by (rule round64_normal[where d = 0]) (simp_all add: power_int_def power_one_over)
  then show "round64 (1 / 2 ^ 60) = Finite (1 / 2 ^ 60)"
    by (simp add: power_int_def power_one_over)
  have "round64 (1 + 1 / 2 ^ 60) = Finite (of_int (2 ^ 52) * 2 powi (0 - 52))"
    by (rule round64_normal[where d = "1 / 2 ^ 8"]) (simp_all add: power_int_def power_one_over)
  then show "round64 (1 + 1 / 2 ^ 60) = Finite 1"
    by (simp add: power_int_def power_one_over)
qed

text \<open>The roundings that the two sample arrays meet.\<close>

lemma round64_values:
  "round64 0 = Finite 0"
  "round64 1 = Finite 1"
  "round64 2 = Finite 2"
  "round64 4 = Finite 4"
  "round64 tiny = Finite tiny"
  "round64 (tiny * tiny) = Finite (tiny * tiny)"
  "round64 (1 + tiny * tiny) = Finite 1"
proof -
  have t: "tiny * tiny = 1 / 2 ^ 60"
    by (simp add: tiny_def)
  show "round64 0 = Finite 0"
    by (simp add: round64_def)
  show "round64 1 = Finite 1" "round64 2 = Finite 2" "round64 4 = Finite 4"
    by (rule round64_dyadic)+
  show "round64 tiny = Finite tiny"
    unfolding tiny_def by (rule round64_dyadic)
  show "round64 (tiny * tiny) = Finite (tiny * tiny)"
    unfolding t by (rule round64_dyadic)
  show "round64 (1 + tiny * tiny) = Finite 1"
    unfolding t by (rule round64_dyadic)
qed

lemma ieee_norm_values:
  "ieee_norm (Finite 0, Finite 0, Finite 0) = Finite 0"
  "ieee_norm (Finite 1, Finite 0, Finite 0) = Finite 1"
  "ieee_norm (Finite 1, Finite tiny, Finite 0) = Finite 1"
  "ieee_norm (Finite 2, Finite 0, Finite 0) = Finite 2"
  by (simp_all add: ieee_norm_def round64_values)

lemma near_far_nearest:
  "nearest_vertex ieee near_far lv_init_node = Inr 0"
  "nearest_vertex ieee far_near lv_init_node = Inr 1"
  by (simp_all add: nearest_vertex_def np_subtract_def np_linalg_norm_def ieee_def argmin_def
      isnan_def near_far_def far_near_def lv_init_node_def round64_values ieee_norm_values)

lemma tie_verts_nearest:
  "nearest_vertex ieee tie_verts lv_init_node = Inr 0"
  "nearest_vertex ieee (rev tie_verts) lv_init_node = Inr 1"
  by (simp_all add: nearest_vertex_def np_subtract_def np_linalg_norm_def ieee_def argmin_def
      isnan_def tie_verts_def lv_init_node_def round64_values ieee_norm_values)

lemma tie_verts_distances:
  "euclidean_distance (tie_verts ! 1) lv_init_node < euclidean_distance (tie_verts ! 0) lv_init_node"
  by (simp add: euclidean_distance_def tie_verts_def lv_init_node_def tiny_def)

lemma near_far_swapped: "mset far_near = mset near_far"
  by (simp add: near_far_def far_near_def)

subsection \<open>The filter of the cell blocks\<close>

lemma bind_err_Inr: "bind_err r f = Inr y \<longleftrightarrow> (\<exists>a. r = Inr a \<and> f a = Inr y)"
  by (cases r) (simp_all add: bind_err_def)

lemma first_elem_Inr: "first_elem x = Inr t \<longleftrightarrow> take 1 x = [t]"
  by (cases x) (simp_all add: first_elem_def)

lemma select_inds_Cons:
  assumes "select_inds tag i (x # xs) = Inr inds"
  obtains t rest where "take 1 x = [t]" and "select_inds tag (Suc i) xs = Inr rest"
    and "inds = (if t = tag then i # rest else rest)"
  using assms by (auto simp: bind_err_Inr first_elem_Inr)

lemma select_inds_ge: "select_inds tag i xs = Inr inds \<Longrightarrow> \<forall>j\<in>set inds. i \<le> j"
proof (induction xs arbitrary: i inds)
  case Nil
  then show ?case by simp
next
  case (Cons x xs)
  from Cons.prems obtain t rest where r: "select_inds tag (Suc i) xs = Inr rest"
    and inds: "inds = (if t = tag then i # rest else rest)"
    by (rule select_inds_Cons)
  from Cons.IH[OF r] have "\<forall>j\<in>set rest. i \<le> j"
    by (simp add: Suc_le_eq less_imp_le)
  then show ?case by (simp add: inds)
qed

lemma gather_in_range: "gather cs inds = Inr blocks \<Longrightarrow> \<forall>j\<in>set inds. j < length cs"
proof (induction inds arbitrary: blocks)
  case Nil
  then show ?case by simp
next
  case (Cons j inds)
  from Cons.prems obtain c rest where "item cs j = Inr c" and g: "gather cs inds = Inr rest"
    by (auto simp: bind_err_Inr)
  then have "j < length cs"
    by (simp add: item_def split: if_splits)
  with Cons.IH[OF g] show ?case by simp
qed

lemma select_gather:
  assumes "select_inds tag i xs = Inr inds" and "gather (pre @ cs) inds = Inr blocks"
    and "length pre = i"
  shows "blocks = map snd (filter (\<lambda>xb. take 1 (fst xb) = [tag]) (zip xs cs))"
  using assms
proof (induction xs arbitrary: i inds pre cs blocks)
  case Nil
  then show ?case by simp
next
  case (Cons x xs)
  from Cons.prems(1) obtain t rest where t: "take 1 x = [t]"
    and r: "select_inds tag (Suc i) xs = Inr rest"
    and inds: "inds = (if t = tag then i # rest else rest)"
    by (rule select_inds_Cons)
  show ?case
  proof (cases cs)
    case Nil
    have "\<forall>j\<in>set inds. i \<le> j"
      using Cons.prems(1) by (rule select_inds_ge)
    moreover have "\<forall>j\<in>set inds. j < i"
      using gather_in_range[OF Cons.prems(2)] Cons.prems(3) by (simp add: Nil)
    ultimately have "inds = []"
      by (cases inds) auto
    with Cons.prems(2) show ?thesis
      by (simp add: Nil)
  next
    case cs: (Cons c cs')
    have len: "length (pre @ [c]) = Suc i"
      using Cons.prems(3) by simp
    have at: "item (pre @ c # cs') i = Inr c"
      using Cons.prems(3) by (simp add: item_def nth_append)
    show ?thesis
    proof (cases "t = tag")
      case True
      with Cons.prems(2) obtain blocks' where g: "gather ((pre @ [c]) @ cs') rest = Inr blocks'"
        and b: "blocks = c # blocks'"
        by (auto simp: inds cs bind_err_Inr at)
      from Cons.IH[OF r g len] show ?thesis
        using t by (simp add: cs True b)
    next
      case False
      with Cons.prems(2) have g: "gather ((pre @ [c]) @ cs') rest = Inr blocks"
        by (simp add: inds cs)
      from Cons.IH[OF r g len] show ?thesis
        using t by (simp add: cs False)
    qed
  qed
qed

lemma np_vstack_rows: "np_vstack blocks = Inr c \<Longrightarrow> rows c = concat (map rows blocks)"
  by (cases blocks) (auto simp: np_vstack_def split: if_splits)

lemma endo_connectivity_rows:
  assumes "endo_connectivity m name = Inr c"
  shows "\<exists>tag physical. region_tag m name = Inr tag \<and>
    cell_data m ''gmsh:physical'' = Some physical \<and>
    rows c = concat (map rows (blocks_with_first_tag physical (cells m) tag))"
proof -
  from assms obtain tag physical inds blocks where tag: "region_tag m name = Inr tag"
    and ph: "lookup (cell_data m) ''gmsh:physical'' = Inr physical"
    and s: "select_inds tag 0 physical = Inr inds"
    and g: "gather (cells m) inds = Inr blocks"
    and v: "np_vstack blocks = Inr c"
    unfolding endo_connectivity_def bind_err_Inr by blast
  from ph have ph': "cell_data m ''gmsh:physical'' = Some physical"
    by (simp add: lookup_def split: option.splits)
  have "blocks = blocks_with_first_tag physical (cells m) tag"
    unfolding blocks_with_first_tag_def
    by (rule select_gather[OF s, of "[]"]) (simp_all add: g)
  with np_vstack_rows[OF v] tag ph' show ?thesis by blast
qed

lemma filter_zip_all:
  assumes "\<forall>t\<in>set x. t = tag"
  shows "filter (\<lambda>ct. snd ct = tag) (zip r x) = zip r x"
proof -
  have "\<forall>ct\<in>set (zip r x). snd ct = tag"
    using assms by (auto dest: set_zip_rightD)
  then show ?thesis by (simp add: filter_id_conv)
qed

lemma filter_zip_none:
  assumes "\<forall>t\<in>set x. t \<noteq> tag"
  shows "filter (\<lambda>ct. snd ct = tag) (zip r x) = []"
proof -
  have "\<forall>ct\<in>set (zip r x). snd ct \<noteq> tag"
    using assms by (auto dest: set_zip_rightD)
  then show ?thesis by (simp add: filter_empty_conv)
qed

lemma uniform_selection:
  assumes "list_all (\<lambda>xb. length (fst xb) = length (rows (snd xb)) \<and>
                    list_all (\<lambda>t. take 1 (fst xb) = [t]) (fst xb)) ps"
  shows "concat (map rows (map snd (filter (\<lambda>xb. take 1 (fst xb) = [tag]) ps))) =
    map fst (filter (\<lambda>ct. snd ct = tag) (concat (map (\<lambda>(x, blk). zip (rows blk) x) ps)))"
  using assms
proof (induction ps)
  case Nil
  then show ?case by simp
next
  case (Cons xb ps)
  obtain x blk where xb: "xb = (x, blk)" by (cases xb)
  from Cons.prems have len: "length x = length (rows blk)"
    and one: "\<forall>t\<in>set x. take 1 x = [t]"
    and rest: "list_all (\<lambda>xb. length (fst xb) = length (rows (snd xb)) \<and>
                    list_all (\<lambda>t. take 1 (fst xb) = [t]) (fst xb)) ps"
    by (simp_all add: xb list_all_iff)
  note ih = Cons.IH[OF rest]
  show ?case
  proof (cases "take 1 x = [tag]")
    case True
    with one have "\<forall>t\<in>set x. t = tag" by simp
    then have "filter (\<lambda>ct. snd ct = tag) (zip (rows blk) x) = zip (rows blk) x"
      by (rule filter_zip_all)
    then show ?thesis
      using True len ih by (simp add: xb)
  next
    case False
    with one have "\<forall>t\<in>set x. t \<noteq> tag" by auto
    then have "filter (\<lambda>ct. snd ct = tag) (zip (rows blk) x) = []"
      by (rule filter_zip_none)
    then show ?thesis
      using False ih by (simp add: xb)
  qed
qed

lemma uniform_blocks_selection:
  "uniform_blocks physical blocks \<Longrightarrow>
   concat (map rows (blocks_with_first_tag physical blocks tag)) = cells_with_tag physical blocks tag"
  unfolding uniform_blocks_def blocks_with_first_tag_def cells_with_tag_def tagged_cells_def
  by (rule uniform_selection)

subsection \<open>The mixed sample evaluated\<close>

lemma sample_libs_lv_stage:
  assumes "files w msh_file = Some b" and "\<not> is_file (files w) lv_file"
    and "endo_connectivity m ''ENDO_LV'' = Inr c"
    and "nearest_vertex (numpy (sample_libs m)) (points m) lv_init_node = Inr i"
  shows "lv_stage (sample_libs m) w =
    (Inr (),
     w\<lparr>files := (files w)(lv_file \<mapsto> ''tree''), rng := 1235,
       calls := calls w @ [MeshioRead msh_file, MeshInit (points m) c (points m ! i),
                          RandomSeed 1234, GenerateFractalTree 7 lv_param 1234]\<rparr>)"
proof -
  let ?L = "sample_libs m"
  have rd: "read_path ?L (files w) msh_file = Inr m"
    using assms(1) by (rule sample_read)
  have ms: "Mesh ?L (points m) c (points m ! i) = Inr 7"
    by (simp add: sample_libs_def)
  have gr: "generate_fractal_tree ?L 7 lv_param (random_seed ?L 1234) = (([(lv_file, ''tree'')], None), 1235)"
    by (simp add: sample_libs_def tree_filenames paths)
  have sd: "random_seed ?L 1234 = 1234"
    by (simp add: sample_libs_def)
  show ?thesis
    unfolding lv_stage_def tree_stage_grows[OF assms(2) rd assms(3,4) ms gr]
    by (simp add: sd outcome_def apply_writes_Cons)
qed

lemma mixed_connectivity:
  "endo_connectivity mixed_msh ''ENDO_LV'' = Inr \<lparr>ncols = 3, rows = [[0, 1, 3], [1, 2, 3]]\<rparr>"
  by (simp add: endo_connectivity_def mixed_msh_def region_tag_def lookup_def first_elem_def
      bind_err_def item_def np_vstack_def)

lemma mixed_nearest: "nearest_vertex (numpy (sample_libs mixed_msh)) (points mixed_msh) lv_init_node = Inr 1"
  by (simp add: nearest_vertex_def mixed_msh_def np_subtract_def np_linalg_norm_def
      sample_libs_def exact_def exact_norm_def argmin_def isnan_def lv_init_node_def)

section \<open>The claims\<close>

subsection \<open>C1: a run with every output present\<close>

text \<open>
  C1. When the four files \<open>data/biv_ellipsoid.msh\<close>, \<open>data/fiber.xdmf\<close>,
  \<open>data/lv_tree.vtu\<close> and \<open>data/rv_tree.vtu\<close> exist, the script ends normally and leaves
  the world as it found it: no library call is added to the log, every file keeps its
  content and the random generator is not touched.
\<close>

theorem run_skips_everything:
  assumes "is_file (files w) msh_file" and "is_file (files w) fiber_file"
    and "is_file (files w) lv_file" and "is_file (files w) rv_file"
  shows "run L w = (Inr (), w)"
  using assms
  by (simp add: run_def mesh_stage_def fiber_stage_def lv_stage_def rv_stage_def tree_stage_def
      then_do_def done_ok_def)

theorem run_skips_everything_witness:
  "is_file (files all_files) msh_file \<and> is_file (files all_files) fiber_file \<and>
   is_file (files all_files) lv_file \<and> is_file (files all_files) rv_file \<and>
   run (sample_libs sample_msh) all_files = (Inr (), all_files) \<and>
   new_calls all_files (snd (run (sample_libs sample_msh) all_files)) = []"
  using run_skips_everything [of all_files "sample_libs sample_msh"]
  by (simp add: all_files_def is_file_def paths)

subsection \<open>C8: the call of the mesh generator\<close>

text \<open>
  C8, as amended. When \<open>data/biv_ellipsoid.msh\<close> is missing, the mesh stage makes one
  library call, the mesh generator on the data directory with seventeen distinct keyword
  arguments: the characteristic length 0.2 and sixteen shape parameters (eight for each
  ventricle). When the file exists the stage does nothing.
\<close>

theorem mesh_stage_call:
  "(\<not> is_file (files w) msh_file \<longrightarrow>
      new_calls w (snd (mesh_stage L w)) = [CreateBivEllipsoid datadir biv_kwargs] \<and>
      length (shape_parameters biv_kwargs) = 16 \<and>
      filter (\<lambda>kv. fst kv = ''char_length'') biv_kwargs = [(''char_length'', 0.2)] \<and>
      length biv_kwargs = 17 \<and> distinct (map fst biv_kwargs)) \<and>
   (is_file (files w) msh_file \<longrightarrow> mesh_stage L w = (Inr (), w))"
  by (simp add: mesh_stage_def call_writer_def done_ok_def biv_kwargs_shape)

theorem mesh_stage_call_witness:
  "\<not> is_file (files no_files) msh_file \<and>
   new_calls no_files (snd (mesh_stage (sample_libs sample_msh) no_files)) =
     [CreateBivEllipsoid datadir biv_kwargs] \<and>
   length (shape_parameters biv_kwargs) = 16 \<and>
   is_file (files all_files) msh_file \<and>
   mesh_stage (sample_libs sample_msh) all_files = (Inr (), all_files)"
  using mesh_stage_call [of no_files "sample_libs sample_msh"]
    mesh_stage_call [of all_files "sample_libs sample_msh"]
  by (simp add: all_files_def no_files_def is_file_def paths)

text \<open>
  The claim as written, with eleven shape parameters, fails on a run from an empty
  directory: the one call made does not carry eleven of them.
\<close>

theorem mesh_stage_eleven_counterexample:
  "\<not> (\<exists>kw. new_calls no_files (snd (mesh_stage (sample_libs sample_msh) no_files)) =
          [CreateBivEllipsoid datadir kw] \<and> length (shape_parameters kw) = 11)"
  by (simp add: mesh_stage_def call_writer_def no_files_def is_file_def new_calls_def
      biv_kwargs_shape)

subsection \<open>C2: the seed and the reproducible tree\<close>

text \<open>
  C2. Take two runs of a tree stage (either ventricle: any output file, region name,
  initial node and parameters) that find the same mesh file and no tree file, whatever
  else differs: the other files, the log, the state of the random generator. Both end
  with the same outcome, make the same library calls with the same arguments, and leave
  the same content in the tree file. If the tree generator is called, the call just
  before it is \<open>np.random.seed(1234)\<close> and the generator starts from the state that seed
  gives.
\<close>

theorem tree_stage_reproducible:
  assumes "files w1 msh_file = files w2 msh_file"
    and "\<not> is_file (files w1) tf" and "\<not> is_file (files w2) tf"
  shows "fst (tree_stage tf name p prm L w1) = fst (tree_stage tf name p prm L w2) \<and>
    new_calls w1 (snd (tree_stage tf name p prm L w1)) =
      new_calls w2 (snd (tree_stage tf name p prm L w2)) \<and>
    files (snd (tree_stage tf name p prm L w1)) tf = files (snd (tree_stage tf name p prm L w2)) tf \<and>
    (\<forall>m q g. GenerateFractalTree m q g \<in> set (new_calls w1 (snd (tree_stage tf name p prm L w1))) \<longrightarrow>
       g = random_seed L 1234 \<and>
       (\<exists>pre. new_calls w1 (snd (tree_stage tf name p prm L w1)) =
               pre @ [RandomSeed 1234, GenerateFractalTree m q g]))"
  using tree_stage_noninterference[OF assms] by blast

theorem tree_stage_reproducible_witness:
  "files mesh_only msh_file = files mesh_and_fibers msh_file \<and>
   \<not> is_file (files mesh_only) lv_file \<and> \<not> is_file (files mesh_and_fibers) lv_file \<and>
   rng mesh_only \<noteq> rng mesh_and_fibers \<and>
   fst (tree_stage lv_file ''ENDO_LV'' lv_init_node lv_param (sample_libs sample_msh) mesh_only) =
   fst (tree_stage lv_file ''ENDO_LV'' lv_init_node lv_param (sample_libs sample_msh) mesh_and_fibers) \<and>
   new_calls mesh_only
     (snd (tree_stage lv_file ''ENDO_LV'' lv_init_node lv_param (sample_libs sample_msh) mesh_only)) =
   new_calls mesh_and_fibers
     (snd (tree_stage lv_file ''ENDO_LV'' lv_init_node lv_param (sample_libs sample_msh) mesh_and_fibers)) \<and>
   files (snd (tree_stage lv_file ''ENDO_LV'' lv_init_node lv_param (sample_libs sample_msh) mesh_only))
     lv_file =
   files (snd (tree_stage lv_file ''ENDO_LV'' lv_init_node lv_param (sample_libs sample_msh) mesh_and_fibers))
     lv_file \<and>
   files (snd (lv_stage (sample_libs sample_msh) mesh_only)) lv_file = Some ''tree'' \<and>
   new_calls mesh_only (snd (lv_stage (sample_libs sample_msh) mesh_only)) =
     [MeshioRead msh_file,
      MeshInit (points sample_msh) \<lparr>ncols = 3, rows = [[0, 1, 3]]\<rparr> (0, 2.3, 0.2),
      RandomSeed 1234, GenerateFractalTree 7 lv_param 1234]"
proof -
  have h1: "files mesh_only msh_file = files mesh_and_fibers msh_file"
    by (simp add: mesh_only_def mesh_and_fibers_def paths)
  have h2: "\<not> is_file (files mesh_only) lv_file"
    by (simp add: mesh_only_def is_file_def paths)
  have h3: "\<not> is_file (files mesh_and_fibers) lv_file"
    by (simp add: mesh_and_fibers_def is_file_def paths)
  have h4: "rng mesh_only \<noteq> rng mesh_and_fibers"
    by (simp add: mesh_only_def mesh_and_fibers_def)
  have m: "files mesh_only msh_file = Some ''mesh''"
    by (simp add: mesh_only_def)
  note t = tree_stage_reproducible
    [OF h1 h2 h3, of "''ENDO_LV''" "lv_init_node" lv_param "sample_libs sample_msh"]
  show ?thesis
    using h1 h2 h3 h4 t by (simp add: sample_lv_stage[OF m h2])
qed

subsection \<open>C10: the right tree does not depend on the left stage\<close>

text \<open>
  C10. Run the stage of the right ventricle once on a world, and once on the world the
  stage of the left ventricle leaves behind. If the left stage changed neither the mesh
  file nor the presence of the right tree file, both runs of the right stage end with the
  same outcome, make the same library calls with the same arguments (the same mesh
  object, parameters and generator state) and leave the same content in
  \<open>data/rv_tree.vtu\<close>: the log and the generator state the left stage leaves do not matter.
\<close>

theorem rv_stage_ignores_lv_stage:
  assumes "\<not> is_file (files w) rv_file"
    and "files (snd (lv_stage L w)) msh_file = files w msh_file"
    and "\<not> is_file (files (snd (lv_stage L w))) rv_file"
  shows "fst (rv_stage L (snd (lv_stage L w))) = fst (rv_stage L w) \<and>
    new_calls (snd (lv_stage L w)) (snd (rv_stage L (snd (lv_stage L w)))) =
      new_calls w (snd (rv_stage L w)) \<and>
    files (snd (rv_stage L (snd (lv_stage L w)))) rv_file = files (snd (rv_stage L w)) rv_file"
  unfolding rv_stage_def
  using tree_stage_noninterference(1-3)[OF assms(2) assms(3) assms(1)] by blast

theorem rv_stage_ignores_lv_stage_witness:
  "\<not> is_file (files mesh_and_fibers) rv_file \<and>
   files (snd (lv_stage (sample_libs sample_msh) mesh_and_fibers)) msh_file =
     files mesh_and_fibers msh_file \<and>
   \<not> is_file (files (snd (lv_stage (sample_libs sample_msh) mesh_and_fibers))) rv_file \<and>
   rng (snd (lv_stage (sample_libs sample_msh) mesh_and_fibers)) \<noteq> rng mesh_and_fibers \<and>
   fst (rv_stage (sample_libs sample_msh) (snd (lv_stage (sample_libs sample_msh) mesh_and_fibers))) =
     fst (rv_stage (sample_libs sample_msh) mesh_and_fibers) \<and>
   new_calls (snd (lv_stage (sample_libs sample_msh) mesh_and_fibers))
       (snd (rv_stage (sample_libs sample_msh) (snd (lv_stage (sample_libs sample_msh) mesh_and_fibers)))) =
     new_calls mesh_and_fibers (snd (rv_stage (sample_libs sample_msh) mesh_and_fibers)) \<and>
   files (snd (rv_stage (sample_libs sample_msh) (snd (lv_stage (sample_libs sample_msh) mesh_and_fibers))))
       rv_file =
     files (snd (rv_stage (sample_libs sample_msh) mesh_and_fibers)) rv_file"
proof -
  have m: "files mesh_and_fibers msh_file = Some ''mesh''"
    by (simp add: mesh_and_fibers_def paths)
  have l: "\<not> is_file (files mesh_and_fibers) lv_file"
    by (simp add: mesh_and_fibers_def is_file_def paths)
  note lv = sample_lv_stage[OF m l]
  have h1: "\<not> is_file (files mesh_and_fibers) rv_file"
    by (simp add: mesh_and_fibers_def is_file_def paths)
  have h2: "files (snd (lv_stage (sample_libs sample_msh) mesh_and_fibers)) msh_file =
     files mesh_and_fibers msh_file"
    by (simp add: lv) (simp add: paths)
  have h3: "\<not> is_file (files (snd (lv_stage (sample_libs sample_msh) mesh_and_fibers))) rv_file"
    using h1 by (simp add: lv is_file_def) (simp add: paths)
  have h4: "rng (snd (lv_stage (sample_libs sample_msh) mesh_and_fibers)) \<noteq> rng mesh_and_fibers"
    by (simp add: lv) (simp add: mesh_and_fibers_def)
  show ?thesis
    using h1 h2 h3 h4 rv_stage_ignores_lv_stage[OF h1 h2 h3] by blast
qed

subsection \<open>C5: a region tag that matches no cell block\<close>

text \<open>
  C5. When a tree stage runs, the mesh is read, its region name has a tag and its cell
  data has \<open>gmsh:physical\<close>, but no block starts with that tag, the stage ends with an
  exception after the one call that reads the mesh: ValueError from \<open>np.vstack\<close> on the
  empty selection (IndexError from \<open>x[0]\<close> if some block has no tag at all). No mesh
  object is built, the generator is not seeded, no tree is grown and no file is written.
  Whatever follows the stage in the script is not run: the sequence ends with the same
  exception and the same world.
\<close>

theorem tree_stage_no_matching_block:
  assumes "\<not> is_file (files w) tf" and "read_path L (files w) msh_file = Inr m"
    and "region_tag m name = Inr tag" and "cell_data m ''gmsh:physical'' = Some physical"
    and "\<forall>x\<in>set physical. take 1 x \<noteq> [tag]"
  shows "tree_stage tf name p prm L w =
      (Inl (if [] \<in> set physical then IndexError else ValueError),
       w\<lparr>calls := calls w @ [MeshioRead msh_file]\<rparr>) \<and>
    then_do (tree_stage tf name p prm L) rest w =
      (Inl (if [] \<in> set physical then IndexError else ValueError),
       w\<lparr>calls := calls w @ [MeshioRead msh_file]\<rparr>)"
  unfolding then_do_def
    tree_stage_connectivity_fails[OF assms(1,2) endo_connectivity_none[OF assms(3,4,5)]]
  by simp

theorem tree_stage_no_matching_block_witness:
  "\<not> is_file (files sheets_deleted) lv_file \<and>
   read_path (sample_libs unmatched_msh) (files sheets_deleted) msh_file = Inr unmatched_msh \<and>
   region_tag unmatched_msh ''ENDO_LV'' = Inr 9 \<and>
   cell_data unmatched_msh ''gmsh:physical'' = Some [[5], [6], [7]] \<and>
   list_all (\<lambda>x. take 1 x \<noteq> [9]) [[5::int], [6], [7]] \<and>
   lv_stage (sample_libs unmatched_msh) sheets_deleted =
     (Inl ValueError, sheets_deleted\<lparr>calls := calls sheets_deleted @ [MeshioRead msh_file]\<rparr>) \<and>
   run (sample_libs unmatched_msh) sheets_deleted =
     (Inl ValueError, sheets_deleted\<lparr>calls := calls sheets_deleted @ [MeshioRead msh_file]\<rparr>)"
proof -
  let ?L = "sample_libs unmatched_msh"
  have h1: "\<not> is_file (files sheets_deleted) lv_file"
    by (simp add: sheets_deleted_def is_file_def paths)
  have h2: "read_path ?L (files sheets_deleted) msh_file = Inr unmatched_msh"
    by (rule sample_read[of _ "''mesh''"]) (simp add: sheets_deleted_def paths)
  have h3: "region_tag unmatched_msh ''ENDO_LV'' = Inr 9"
    by (simp add: unmatched_msh_def sample_msh_def region_tag_def lookup_def first_elem_def
        bind_err_def)
  have h4: "cell_data unmatched_msh ''gmsh:physical'' = Some [[5], [6], [7]]"
    by (simp add: unmatched_msh_def sample_msh_def)
  have h5: "\<forall>x\<in>set [[5], [6], [7]]. take 1 x \<noteq> [9::int]"
    by simp
  have h5': "list_all (\<lambda>x. take 1 x \<noteq> [9]) [[5::int], [6], [7]]"
    by simp
  note t = tree_stage_no_matching_block[OF h1 h2 h3 h4 h5,
      where p = lv_init_node and prm = lv_param and rest = "\<lambda>_. rv_stage ?L"]
  have lv: "lv_stage ?L sheets_deleted =
     (Inl ValueError, sheets_deleted\<lparr>calls := calls sheets_deleted @ [MeshioRead msh_file]\<rparr>)"
    unfolding lv_stage_def using t by simp
  have rest: "then_do (lv_stage ?L) (\<lambda>_. rv_stage ?L) sheets_deleted =
     (Inl ValueError, sheets_deleted\<lparr>calls := calls sheets_deleted @ [MeshioRead msh_file]\<rparr>)"
    unfolding lv_stage_def using t by simp
  have ms: "mesh_stage ?L sheets_deleted = (Inr (), sheets_deleted)"
    by (simp add: mesh_stage_def done_ok_def sheets_deleted_def is_file_def paths)
  have fs: "fiber_stage ?L sheets_deleted = (Inr (), sheets_deleted)"
    by (rule fiber_stage_skip) (simp add: sheets_deleted_def is_file_def paths)
  have r: "run ?L sheets_deleted =
     (Inl ValueError, sheets_deleted\<lparr>calls := calls sheets_deleted @ [MeshioRead msh_file]\<rparr>)"
    unfolding run_def
    by (subst then_do_def, simp only: ms prod.case sum.case)
      (subst then_do_def, simp only: fs prod.case sum.case rest)
  show ?thesis
    using h1 h2 h3 h4 h5' lv r by (intro conjI)
qed

subsection \<open>C9: only the left tree is missing\<close>

text \<open>
  C9. Start from a world where the mesh, the fiber file and the right tree exist and
  \<open>data/lv_tree.vtu\<close> does not, and let the left tree stage succeed: the mesh is read, the
  connectivity and the nearest vertex are found, the mesh object is built and the tree
  generator returns normally, writing \<open>data/lv_tree.vtu\<close> and only paths that extend its
  \<open>filename\<close> argument \<open>data/lv_tree\<close>. Then the run ends normally, its library calls are
  the four of the left tree stage, \<open>data/lv_tree.vtu\<close> exists afterwards, and every path
  that does not extend \<open>data/lv_tree\<close> keeps its content: the mesh, the fiber, sheet and
  sheet-normal files and the right tree among them.
\<close>

theorem run_regenerates_lv_tree_only:
  assumes "is_file (files w) msh_file" and "is_file (files w) fiber_file"
    and "\<not> is_file (files w) lv_file" and "is_file (files w) rv_file"
    and "read_path L (files w) msh_file = Inr m"
    and "endo_connectivity m ''ENDO_LV'' = Inr c"
    and "nearest_vertex (numpy L) (points m) lv_init_node = Inr i"
    and "Mesh L (points m) c (points m ! i) = Inr t"
    and "generate_fractal_tree L t lv_param (random_seed L 1234) = ((ws, None), g)"
    and "lv_file \<in> fst ` set ws"
    and "\<forall>q\<in>fst ` set ws. prefix (filename lv_param) q"
  shows "run L w =
      (Inr (),
       w\<lparr>files := apply_writes ws (files w), rng := g,
         calls := calls w @ [MeshioRead msh_file, MeshInit (points m) c (points m ! i),
                            RandomSeed 1234, GenerateFractalTree t lv_param (random_seed L 1234)]\<rparr>) \<and>
    is_file (files (snd (run L w))) lv_file \<and>
    (\<forall>q. \<not> prefix (filename lv_param) q \<longrightarrow> files (snd (run L w)) q = files w q) \<and>
    files (snd (run L w)) msh_file = files w msh_file \<and>
    files (snd (run L w)) fiber_file = files w fiber_file \<and>
    files (snd (run L w)) (xdmf_path ''sheet'') = files w (xdmf_path ''sheet'') \<and>
    files (snd (run L w)) (xdmf_path ''sheet_normal'') = files w (xdmf_path ''sheet_normal'') \<and>
    files (snd (run L w)) rv_file = files w rv_file"
proof -
  let ?w = "w\<lparr>files := apply_writes ws (files w), rng := g,
         calls := calls w @ [MeshioRead msh_file, MeshInit (points m) c (points m ! i),
                            RandomSeed 1234, GenerateFractalTree t lv_param (random_seed L 1234)]\<rparr>"
  have ms: "mesh_stage L w = (Inr (), w)"
    using assms(1) by (simp add: mesh_stage_def done_ok_def)
  have fs: "fiber_stage L w = (Inr (), w)"
    using assms(2) by (simp add: fiber_stage_def done_ok_def)
  have lv: "lv_stage L w = (Inr (), ?w)"
    unfolding lv_stage_def tree_stage_grows[OF assms(3) assms(5-9)]
    by (simp add: outcome_def)
  have "is_file (files ?w) rv_file"
    using assms(4) by (simp add: apply_writes_keeps_files)
  then have rv: "rv_stage L ?w = (Inr (), ?w)"
    unfolding rv_stage_def by (rule tree_stage_skip)
  have r: "run L w = (Inr (), ?w)"
    by (simp add: run_def then_do_def ms fs lv rv)
  have keep: "files ?w q = files w q" if "\<not> prefix (filename lv_param) q" for q
  proof -
    from that assms(11) have "q \<notin> fst ` set ws" by blast
    then show ?thesis by (simp add: apply_writes_other)
  qed
  have made: "is_file (files ?w) lv_file"
    using assms(10) by (simp add: apply_writes_makes_files)
  have np: "\<not> prefix (filename lv_param) msh_file" "\<not> prefix (filename lv_param) fiber_file"
    "\<not> prefix (filename lv_param) (xdmf_path ''sheet'')"
    "\<not> prefix (filename lv_param) (xdmf_path ''sheet_normal'')"
    "\<not> prefix (filename lv_param) rv_file"
    by (simp_all add: tree_filenames paths xdmf_path_def datadir_def)
  show ?thesis
    unfolding r snd_conv using made keep np by blast
qed


theorem run_regenerates_lv_tree_only_witness:
  "is_file (files lv_missing) msh_file \<and> is_file (files lv_missing) fiber_file \<and>
   \<not> is_file (files lv_missing) lv_file \<and> is_file (files lv_missing) rv_file \<and>
   read_path (sample_libs sample_msh) (files lv_missing) msh_file = Inr sample_msh \<and>
   endo_connectivity sample_msh ''ENDO_LV'' = Inr \<lparr>ncols = 3, rows = [[0, 1, 3]]\<rparr> \<and>
   nearest_vertex (numpy (sample_libs sample_msh)) (points sample_msh) lv_init_node = Inr 1 \<and>
   Mesh (sample_libs sample_msh) (points sample_msh) \<lparr>ncols = 3, rows = [[0, 1, 3]]\<rparr>
     (points sample_msh ! 1) = Inr 7 \<and>
   generate_fractal_tree (sample_libs sample_msh) 7 lv_param
     (random_seed (sample_libs sample_msh) 1234) = (([(lv_file, ''tree'')], None), 1235) \<and>
   lv_file \<in> fst ` set [(lv_file, ''tree'')] \<and>
   prefix (filename lv_param) lv_file \<and>
   run (sample_libs sample_msh) lv_missing =
     (Inr (),
      lv_missing\<lparr>files := apply_writes [(lv_file, ''tree'')] (files lv_missing), rng := 1235,
        calls := calls lv_missing @
          [MeshioRead msh_file,
           MeshInit (points sample_msh) \<lparr>ncols = 3, rows = [[0, 1, 3]]\<rparr> (points sample_msh ! 1),
           RandomSeed 1234,
           GenerateFractalTree 7 lv_param (random_seed (sample_libs sample_msh) 1234)]\<rparr>) \<and>
   is_file (files (snd (run (sample_libs sample_msh) lv_missing))) lv_file \<and>
   files (snd (run (sample_libs sample_msh) lv_missing)) msh_file = files lv_missing msh_file \<and>
   files (snd (run (sample_libs sample_msh) lv_missing)) fiber_file = files lv_missing fiber_file \<and>
   files (snd (run (sample_libs sample_msh) lv_missing)) rv_file = files lv_missing rv_file"
proof -
  let ?L = "sample_libs sample_msh"
  have h1: "is_file (files lv_missing) msh_file" and h2: "is_file (files lv_missing) fiber_file"
    and h3: "\<not> is_file (files lv_missing) lv_file" and h4: "is_file (files lv_missing) rv_file"
    by (simp_all add: lv_missing_def is_file_def paths)
  have h5: "read_path ?L (files lv_missing) msh_file = Inr sample_msh"
    by (rule sample_read[of _ "''mesh''"]) (simp add: lv_missing_def paths)
  have h8: "Mesh ?L (points sample_msh) \<lparr>ncols = 3, rows = [[0, 1, 3]]\<rparr> (points sample_msh ! 1) = Inr 7"
    by (simp add: sample_libs_def)
  have h9: "generate_fractal_tree ?L 7 lv_param (random_seed ?L 1234) =
      (([(lv_file, ''tree'')], None), 1235)"
    by (simp add: sample_libs_def tree_filenames paths)
  have h10: "lv_file \<in> fst ` set [(lv_file, ''tree'')]"
    by simp
  have p: "prefix (filename lv_param) lv_file"
    by (simp add: tree_filenames paths)
  then have h11: "\<forall>q\<in>fst ` set [(lv_file, ''tree'')]. prefix (filename lv_param) q"
    by simp
  note t = run_regenerates_lv_tree_only
    [OF h1 h2 h3 h4 h5 sample_connectivity(1) sample_nearest(1) h8 h9 h10 h11]
  show ?thesis
    using h1 h2 h3 h4 h5 sample_connectivity(1) sample_nearest(1) h8 h9 h10 p t by blast
qed

subsection \<open>C3: the three checkpoints hang on the fiber file alone\<close>

text \<open>
  C3. The fiber stage tests \<open>data/fiber.xdmf\<close> and nothing else. When that file exists
  the stage does nothing, whether the sheet and sheet-normal files exist or not. When it
  is missing and the stage ends normally, the checkpoints written are those of the fiber,
  the sheet and the sheet normal, in this order; and the stage does end normally, with
  these three writes after the calls that load the geometry and compute the fibers, when
  the geometry is loaded with its four markers, the fiber computation succeeds and the
  three writes succeed.
\<close>

theorem fiber_stage_checkpoints:
  "(is_file (files w) fiber_file \<longrightarrow> fiber_stage L w = (Inr (), w)) \<and>
   (\<not> is_file (files w) fiber_file \<longrightarrow> fst (fiber_stage L w) = Inr () \<longrightarrow>
      checkpoint_paths (new_calls w (snd (fiber_stage L w))) =
        [''data/fiber.xdmf'', ''data/sheet.xdmf'', ''data/sheet_normal.xdmf'']) \<and>
   (\<not> is_file (files w) fiber_file \<longrightarrow>
    from_folder L (files w) datadir = Inr geo \<longrightarrow>
    ldrb_markers geo = Inr mk \<longrightarrow>
    dolfin_ldrb L (mesh geo) ''P_1'' (ffun geo) mk ldrb_angles = Inr s \<longrightarrow>
    write_checkpoint L ''data/fiber.xdmf'' (fiber s) ''fiber'' 0 HDF5 False = (ws1, None) \<longrightarrow>
    write_checkpoint L ''data/sheet.xdmf'' (sheet s) ''sheet'' 0 HDF5 False = (ws2, None) \<longrightarrow>
    write_checkpoint L ''data/sheet_normal.xdmf'' (sheet_normal s) ''sheet_normal'' 0 HDF5 False =
      (ws3, None) \<longrightarrow>
    fiber_stage L w =
      (Inr (),
       w\<lparr>files := apply_writes ws3 (apply_writes ws2 (apply_writes ws1 (files w))),
         calls := calls w @
           [FromFolder datadir, DolfinLdrb (mesh geo) ''P_1'' (ffun geo) mk ldrb_angles,
            WriteCheckpoint ''data/fiber.xdmf'' (fiber s) ''fiber'' 0 HDF5 False,
            WriteCheckpoint ''data/sheet.xdmf'' (sheet s) ''sheet'' 0 HDF5 False,
            WriteCheckpoint ''data/sheet_normal.xdmf'' (sheet_normal s) ''sheet_normal'' 0 HDF5
              False]\<rparr>))"
  using fiber_stage_skip[of w L] fiber_stage_completes[of w L]
    fiber_stage_succeeds[of w L geo mk s ws1 ws2 ws3]
  unfolding xdmf_paths by blast

theorem fiber_stage_checkpoints_witness:
  "is_file (files sheets_deleted) fiber_file \<and>
   \<not> is_file (files sheets_deleted) ''data/sheet.xdmf'' \<and>
   \<not> is_file (files sheets_deleted) ''data/sheet_normal.xdmf'' \<and>
   fiber_stage (sample_libs sample_msh) sheets_deleted = (Inr (), sheets_deleted) \<and>
   \<not> is_file (files mesh_only) fiber_file \<and>
   fst (fiber_stage (sample_libs sample_msh) mesh_only) = Inr () \<and>
   checkpoint_paths (new_calls mesh_only (snd (fiber_stage (sample_libs sample_msh) mesh_only))) =
     [''data/fiber.xdmf'', ''data/sheet.xdmf'', ''data/sheet_normal.xdmf''] \<and>
   files (snd (fiber_stage (sample_libs sample_msh) mesh_only)) =
     (files mesh_only)(''data/fiber.xdmf'' \<mapsto> ''fiber'', ''data/sheet.xdmf'' \<mapsto> ''sheet'',
        ''data/sheet_normal.xdmf'' \<mapsto> ''sheet_normal'')"
proof -
  let ?L = "sample_libs sample_msh"
  let ?geo = "\<lparr>mesh = 0 :: nat, ffun = 1,
      markers = [''BASE'' \<mapsto> [10, 2], ''ENDO_LV'' \<mapsto> [5, 2], ''ENDO_RV'' \<mapsto> [6, 2],
                 ''EPI'' \<mapsto> [8, 2]]\<rparr>"
  let ?mk = "[(''base'', 10), (''lv'', 5), (''rv'', 6), (''epi'', 8 :: int)]"
  let ?s = "\<lparr>fiber = 2 :: nat, sheet = 3, sheet_normal = 4\<rparr>"
  have a1: "is_file (files sheets_deleted) fiber_file"
    and a2: "\<not> is_file (files sheets_deleted) ''data/sheet.xdmf''"
    and a3: "\<not> is_file (files sheets_deleted) ''data/sheet_normal.xdmf''"
    by (simp_all add: sheets_deleted_def is_file_def paths)
  have b1: "\<not> is_file (files mesh_only) fiber_file"
    by (simp add: mesh_only_def is_file_def paths)
  have b2: "from_folder ?L (files mesh_only) datadir = Inr ?geo"
    by (simp add: sample_libs_def)
  have b4: "dolfin_ldrb ?L (mesh ?geo) ''P_1'' (ffun ?geo) ?mk ldrb_angles = Inr ?s"
    by (simp add: sample_libs_def)
  have b5: "write_checkpoint ?L ''data/fiber.xdmf'' (fiber ?s) ''fiber'' 0 HDF5 False =
      ([(''data/fiber.xdmf'', ''fiber'')], None)"
    and b6: "write_checkpoint ?L ''data/sheet.xdmf'' (sheet ?s) ''sheet'' 0 HDF5 False =
      ([(''data/sheet.xdmf'', ''sheet'')], None)"
    and b7: "write_checkpoint ?L ''data/sheet_normal.xdmf'' (sheet_normal ?s) ''sheet_normal'' 0 HDF5
      False = ([(''data/sheet_normal.xdmf'', ''sheet_normal'')], None)"
    by (simp_all add: sample_libs_def)
  note t1 = fiber_stage_checkpoints[of sheets_deleted ?L]
  note t2 = fiber_stage_checkpoints[of mesh_only ?L ?geo ?mk ?s
      "[(''data/fiber.xdmf'', ''fiber'')]" "[(''data/sheet.xdmf'', ''sheet'')]"
      "[(''data/sheet_normal.xdmf'', ''sheet_normal'')]"]
  have r1: "fiber_stage ?L sheets_deleted = (Inr (), sheets_deleted)"
    using t1 a1 by blast
  have r2: "fiber_stage ?L mesh_only =
      (Inr (),
       mesh_only\<lparr>files := apply_writes [(''data/sheet_normal.xdmf'', ''sheet_normal'')]
           (apply_writes [(''data/sheet.xdmf'', ''sheet'')]
             (apply_writes [(''data/fiber.xdmf'', ''fiber'')] (files mesh_only))),
         calls := calls mesh_only @
           [FromFolder datadir, DolfinLdrb (mesh ?geo) ''P_1'' (ffun ?geo) ?mk ldrb_angles,
            WriteCheckpoint ''data/fiber.xdmf'' (fiber ?s) ''fiber'' 0 HDF5 False,
            WriteCheckpoint ''data/sheet.xdmf'' (sheet ?s) ''sheet'' 0 HDF5 False,
            WriteCheckpoint ''data/sheet_normal.xdmf'' (sheet_normal ?s) ''sheet_normal'' 0 HDF5
              False]\<rparr>)"
    using t2 b1 b2 sample_markers b4 b5 b6 b7 by blast
  show ?thesis
    using a1 a2 a3 b1 r1 by (simp add: r2 apply_writes_Cons)
qed

subsection \<open>C6: the growth origin is a vertex of least computed distance\<close>

text \<open>
  C6, as amended. On a vertex array that is not empty, the lookup of lines 106 and 148
  returns the index of a vertex whose distance to the given point, as numpy computes it
  in float64, is least among the computed distances of all vertices (a vertex whose
  computed distance is NaN, if there is one). That vertex is at minimal Euclidean distance
  whenever the computed distances keep every strict order of the Euclidean distances of
  the vertices. In a tree stage, whenever the mesh constructor is called, the vertices it
  receives are the points of the mesh read and its initial node is the vertex the lookup
  returns for the approximate initial node of the stage. This holds for every rounding of
  the arithmetic.
\<close>

theorem nearest_vertex_least_computed_distance:
  "(verts \<noteq> [] \<longrightarrow>
      (\<exists>i. nearest_vertex A verts p = Inr i \<and> i < length verts \<and>
         (NaN \<in> (\<lambda>v. computed_distance A v p) ` set verts \<longrightarrow>
            computed_distance A (verts ! i) p = NaN) \<and>
         (NaN \<notin> (\<lambda>v. computed_distance A v p) ` set verts \<longrightarrow>
            (\<forall>u\<in>set verts.
               float_ge (computed_distance A u p) (computed_distance A (verts ! i) p)) \<and>
            ((\<forall>u\<in>set verts. \<forall>v\<in>set verts.
                euclidean_distance u p < euclidean_distance v p \<longrightarrow>
                \<not> float_ge (computed_distance A u p) (computed_distance A v p)) \<longrightarrow>
             (\<forall>u\<in>set verts. euclidean_distance (verts ! i) p \<le> euclidean_distance u p))))) \<and>
   (\<not> is_file (files w) tf \<longrightarrow>
    MeshInit vs c orig \<in> set (new_calls w (snd (tree_stage tf name p prm L w))) \<longrightarrow>
    read_path L (files w) msh_file = Inr m \<longrightarrow>
      vs = points m \<and>
      (\<exists>i. nearest_vertex (numpy L) (points m) p = Inr i \<and> orig = points m ! i))"
proof (intro conjI impI)
  assume "verts \<noteq> []"
  then obtain i where i: "nearest_vertex A verts p = Inr i"
    using nearest_vertex_total by blast
  note l = nearest_vertex_least[OF i]
  have in_range: "verts ! i \<in> set verts"
    using l(1) by (rule nth_mem)
  have closest: "\<forall>u\<in>set verts. euclidean_distance (verts ! i) p \<le> euclidean_distance u p"
    if n: "NaN \<notin> (\<lambda>v. computed_distance A v p) ` set verts"
      and h: "\<forall>u\<in>set verts. \<forall>v\<in>set verts.
                euclidean_distance u p < euclidean_distance v p \<longrightarrow>
                \<not> float_ge (computed_distance A u p) (computed_distance A v p)"
  proof
    fix u assume u: "u \<in> set verts"
    show "euclidean_distance (verts ! i) p \<le> euclidean_distance u p"
    proof (rule ccontr)
      assume "\<not> euclidean_distance (verts ! i) p \<le> euclidean_distance u p"
      then have "euclidean_distance u p < euclidean_distance (verts ! i) p"
        by simp
      with h u in_range
      have "\<not> float_ge (computed_distance A u p) (computed_distance A (verts ! i) p)"
        by blast
      moreover have "float_ge (computed_distance A u p) (computed_distance A (verts ! i) p)"
        using l(3)[OF n] u by (rule bspec)
      ultimately show False by simp
    qed
  qed
  show "\<exists>i. nearest_vertex A verts p = Inr i \<and> i < length verts \<and>
         (NaN \<in> (\<lambda>v. computed_distance A v p) ` set verts \<longrightarrow>
            computed_distance A (verts ! i) p = NaN) \<and>
         (NaN \<notin> (\<lambda>v. computed_distance A v p) ` set verts \<longrightarrow>
            (\<forall>u\<in>set verts.
               float_ge (computed_distance A u p) (computed_distance A (verts ! i) p)) \<and>
            ((\<forall>u\<in>set verts. \<forall>v\<in>set verts.
                euclidean_distance u p < euclidean_distance v p \<longrightarrow>
                \<not> float_ge (computed_distance A u p) (computed_distance A v p)) \<longrightarrow>
             (\<forall>u\<in>set verts. euclidean_distance (verts ! i) p \<le> euclidean_distance u p)))"
    by (intro exI[of _ i] conjI impI) (fact i l(1) | rule l(2) l(3) closest, assumption+)+
next
  assume a: "\<not> is_file (files w) tf"
    "MeshInit vs c orig \<in> set (new_calls w (snd (tree_stage tf name p prm L w)))"
    "read_path L (files w) msh_file = Inr m"
  from tree_stage_mesh_init[OF a(1,2)] a(3) obtain i where
    i: "nearest_vertex (numpy L) (points m) p = Inr i" and v: "vs = points m"
    and o: "orig = points m ! i"
    by auto
  show "vs = points m" by (rule v)
  show "\<exists>i. nearest_vertex (numpy L) (points m) p = Inr i \<and> orig = points m ! i"
    using i o by blast
qed

theorem nearest_vertex_least_computed_distance_witness:
  "near_far \<noteq> [] \<and>
   (\<exists>i. nearest_vertex ieee near_far lv_init_node = Inr i \<and> i < length near_far \<and>
      (NaN \<in> (\<lambda>v. computed_distance ieee v lv_init_node) ` set near_far \<longrightarrow>
         computed_distance ieee (near_far ! i) lv_init_node = NaN) \<and>
      (NaN \<notin> (\<lambda>v. computed_distance ieee v lv_init_node) ` set near_far \<longrightarrow>
         (\<forall>u\<in>set near_far.
            float_ge (computed_distance ieee u lv_init_node)
              (computed_distance ieee (near_far ! i) lv_init_node)) \<and>
         ((\<forall>u\<in>set near_far. \<forall>v\<in>set near_far.
             euclidean_distance u lv_init_node < euclidean_distance v lv_init_node \<longrightarrow>
             \<not> float_ge (computed_distance ieee u lv_init_node)
                 (computed_distance ieee v lv_init_node)) \<longrightarrow>
          (\<forall>u\<in>set near_far.
             euclidean_distance (near_far ! i) lv_init_node \<le>
             euclidean_distance u lv_init_node)))) \<and>
   nearest_vertex ieee near_far lv_init_node = Inr 0 \<and>
   computed_distance ieee (near_far ! 0) lv_init_node = Finite 0 \<and>
   computed_distance ieee (near_far ! 1) lv_init_node = Finite 1 \<and>
   \<not> is_file (files mesh_only) lv_file \<and>
   MeshInit (points sample_msh) \<lparr>ncols = 3, rows = [[0, 1, 3]]\<rparr> (0, 2.3, 0.2) \<in>
     set (new_calls mesh_only
       (snd (tree_stage lv_file ''ENDO_LV'' lv_init_node lv_param (sample_libs sample_msh)
          mesh_only))) \<and>
   read_path (sample_libs sample_msh) (files mesh_only) msh_file = Inr sample_msh \<and>
   (\<exists>i. nearest_vertex (numpy (sample_libs sample_msh)) (points sample_msh) lv_init_node = Inr i \<and>
        (0, 2.3, 0.2) = points sample_msh ! i)"
proof -
  let ?L = "sample_libs sample_msh"
  let ?c = "\<lparr>ncols = 3, rows = [[0, 1, 3]]\<rparr>"
  have h1: "near_far \<noteq> []"
    by (simp add: near_far_def)
  have d0: "computed_distance ieee (near_far ! 0) lv_init_node = Finite 0"
    and d1: "computed_distance ieee (near_far ! 1) lv_init_node = Finite 1"
    by (simp_all add: computed_distance_def near_far_def lv_init_node_def ieee_def
        round64_values ieee_norm_values)
  have h2: "\<not> is_file (files mesh_only) lv_file"
    by (simp add: mesh_only_def is_file_def paths)
  have m: "files mesh_only msh_file = Some ''mesh''"
    by (simp add: mesh_only_def)
  have h3: "MeshInit (points sample_msh) ?c (0, 2.3, 0.2) \<in>
     set (new_calls mesh_only (snd (tree_stage lv_file ''ENDO_LV'' lv_init_node lv_param ?L mesh_only)))"
    using sample_lv_stage[OF m h2] by (simp add: lv_stage_def)
  have h4: "read_path ?L (files mesh_only) msh_file = Inr sample_msh"
    using m by (rule sample_read)
  note t = nearest_vertex_least_computed_distance[of near_far ieee lv_init_node mesh_only lv_file
      "points sample_msh" ?c "(0, 2.3, 0.2)" "''ENDO_LV''" lv_param ?L sample_msh]
  note c1 = t[THEN conjunct1, rule_format, OF h1]
  note t2 = t[THEN conjunct2, rule_format, OF h2 h3 h4]
  note c2 = t2[THEN conjunct2]
  show ?thesis
    using h1 c1 near_far_nearest(1) d0 d1 h2 h3 h4 c2 by (intro conjI)
qed

text \<open>
  The claim as written fails in float64. Of the three sample vertices the second is
  strictly closer to the left initial node than the first, by \<open>2 ^ -30\<close> along one
  coordinate; the squares of the differences of the first are 1, \<open>2 ^ -60\<close> and 0, their
  rounded sum is 1, and both computed distances are 1. The lookup returns the first
  vertex, and the left tree stage passes it to the mesh constructor. The differences are
  1, \<open>2 ^ -30\<close>, 0 and 1, 0, 0 whichever float64 value the literal 2.34484 denotes, and
  they are computed without rounding.
\<close>

theorem nearest_vertex_farther_counterexample:
  "nearest_vertex ieee tie_verts lv_init_node = Inr 0 \<and>
   computed_distance ieee (tie_verts ! 0) lv_init_node = Finite 1 \<and>
   computed_distance ieee (tie_verts ! 1) lv_init_node = Finite 1 \<and>
   euclidean_distance (tie_verts ! 1) lv_init_node < euclidean_distance (tie_verts ! 0) lv_init_node \<and>
   new_calls mesh_only (snd (lv_stage (ieee_libs tie_msh) mesh_only)) =
     [MeshioRead msh_file,
      MeshInit tie_verts \<lparr>ncols = 3, rows = [[0, 1, 2]]\<rparr> (tie_verts ! 0),
      RandomSeed 1234, GenerateFractalTree 7 lv_param 1234]"
proof -
  let ?L = "ieee_libs tie_msh"
  have d: "computed_distance ieee (tie_verts ! 0) lv_init_node = Finite 1"
    "computed_distance ieee (tie_verts ! 1) lv_init_node = Finite 1"
    by (simp_all add: computed_distance_def tie_verts_def lv_init_node_def ieee_def
        round64_values ieee_norm_values)
  have h: "\<not> is_file (files mesh_only) lv_file"
    by (simp add: mesh_only_def is_file_def paths)
  have rd: "read_path ?L (files mesh_only) msh_file = Inr tie_msh"
    by (simp add: read_path_def ieee_libs_def sample_libs_def mesh_only_def)
  have cn: "endo_connectivity tie_msh ''ENDO_LV'' = Inr \<lparr>ncols = 3, rows = [[0, 1, 2]]\<rparr>"
    by (simp add: endo_connectivity_def tie_msh_def region_tag_def lookup_def first_elem_def
        bind_err_def item_def np_vstack_def)
  have nv: "nearest_vertex (numpy ?L) (points tie_msh) lv_init_node = Inr 0"
    using tie_verts_nearest(1) by (simp add: ieee_libs_def tie_msh_def)
  have ms: "Mesh ?L (points tie_msh) \<lparr>ncols = 3, rows = [[0, 1, 2]]\<rparr> (points tie_msh ! 0) = Inr 7"
    by (simp add: ieee_libs_def sample_libs_def)
  have gr: "generate_fractal_tree ?L 7 lv_param (random_seed ?L 1234) =
      (([(lv_file, ''tree'')], None), 1235)"
    by (simp add: ieee_libs_def sample_libs_def tree_filenames paths)
  have sd: "random_seed ?L 1234 = 1234"
    by (simp add: ieee_libs_def sample_libs_def)
  have pts: "points tie_msh = tie_verts"
    by (simp add: tie_msh_def)
  have st: "new_calls mesh_only (snd (lv_stage ?L mesh_only)) =
     [MeshioRead msh_file,
      MeshInit tie_verts \<lparr>ncols = 3, rows = [[0, 1, 2]]\<rparr> (tie_verts ! 0),
      RandomSeed 1234, GenerateFractalTree 7 lv_param 1234]"
    unfolding lv_stage_def tree_stage_grows[OF h rd cn nv ms gr] pts sd by simp
  show ?thesis
    using tie_verts_nearest(1) d tie_verts_distances st by (intro conjI)
qed

subsection \<open>C7: the lookup and the order of the vertices\<close>

text \<open>
  C7, as amended. The lookup is a function of the arithmetic, the vertex array and the
  point. On a permutation of the array it succeeds as well and returns the index of a
  vertex with the same computed distance to the point; that vertex is the same one
  whenever a single vertex of the array has that computed distance. The index itself may
  change, and so may the vertex when rounding gives two vertices the same computed
  distance.
\<close>

theorem nearest_vertex_permuted:
  assumes "mset verts' = mset verts" and "nearest_vertex A verts p = Inr i"
  shows "\<exists>j. nearest_vertex A verts' p = Inr j \<and> j < length verts' \<and>
    computed_distance A (verts' ! j) p = computed_distance A (verts ! i) p \<and>
    ((\<forall>u\<in>set verts. computed_distance A u p = computed_distance A (verts ! i) p \<longrightarrow>
        u = verts ! i)
       \<longrightarrow> verts' ! j = verts ! i)"
proof -
  let ?d = "\<lambda>v. computed_distance A v p"
  have s: "set verts' = set verts"
    using assms(1) by (rule mset_eq_setD)
  note a = nearest_vertex_least[OF assms(2)]
  have vi: "verts ! i \<in> set verts"
    using a(1) by (rule nth_mem)
  then have "verts' \<noteq> []"
    unfolding s[symmetric] by (cases verts') simp_all
  then obtain j where j: "nearest_vertex A verts' p = Inr j"
    using nearest_vertex_total by blast
  note b = nearest_vertex_least[OF j]
  have vj: "verts' ! j \<in> set verts"
    unfolding s[symmetric] using b(1) by (rule nth_mem)
  have d: "?d (verts' ! j) = ?d (verts ! i)"
  proof (cases "NaN \<in> ?d ` set verts")
    case True
    have "NaN \<in> ?d ` set verts'" unfolding s by (rule True)
    from b(2)[OF this] a(2)[OF True] show ?thesis by simp
  next
    case False
    have n': "NaN \<notin> ?d ` set verts'" unfolding s by (rule False)
    have "float_ge (?d (verts' ! j)) (?d (verts ! i))"
      using a(3)[OF False] vj by (rule bspec)
    moreover have "float_ge (?d (verts ! i)) (?d (verts' ! j))"
      using b(3)[OF n'] vi unfolding s[symmetric] by (rule bspec)
    ultimately show ?thesis by (rule float_ge_antisym)
  qed
  have u: "verts' ! j = verts ! i"
    if "\<forall>u\<in>set verts. ?d u = ?d (verts ! i) \<longrightarrow> u = verts ! i"
    using bspec[OF that vj] d by (rule mp)
  show ?thesis
    by (intro exI[of _ j] conjI impI) (fact j b(1) d u)+
qed

theorem nearest_vertex_permuted_witness:
  "mset far_near = mset near_far \<and>
   nearest_vertex ieee near_far lv_init_node = Inr 0 \<and>
   (\<exists>j. nearest_vertex ieee far_near lv_init_node = Inr j \<and> j < length far_near \<and>
        computed_distance ieee (far_near ! j) lv_init_node =
        computed_distance ieee (near_far ! 0) lv_init_node \<and>
        ((\<forall>u\<in>set near_far.
            computed_distance ieee u lv_init_node =
            computed_distance ieee (near_far ! 0) lv_init_node \<longrightarrow> u = near_far ! 0)
         \<longrightarrow> far_near ! j = near_far ! 0)) \<and>
   mset (rev tie_verts) = mset tie_verts \<and>
   nearest_vertex ieee tie_verts lv_init_node = Inr 0 \<and>
   nearest_vertex ieee (rev tie_verts) lv_init_node = Inr 1 \<and>
   rev tie_verts ! 1 \<noteq> tie_verts ! 0"
proof -
  have r: "mset (rev tie_verts) = mset tie_verts"
    by simp
  have n: "rev tie_verts ! 1 \<noteq> tie_verts ! 0"
    by (simp add: tie_verts_def tiny_def)
  show ?thesis
    using nearest_vertex_permuted[OF near_far_swapped near_far_nearest(1)]
      near_far_swapped near_far_nearest(1) r tie_verts_nearest n
    by (intro conjI)
qed

text \<open>
  The claim as written fails: with the closest of two vertices first the lookup returns
  0, and with the two swapped it returns 1. Both computed distances are exact here, 0 and
  1.
\<close>

theorem nearest_vertex_index_counterexample:
  "mset far_near = mset near_far \<and>
   nearest_vertex ieee near_far lv_init_node = Inr 0 \<and>
   nearest_vertex ieee far_near lv_init_node = Inr 1"
  using near_far_swapped near_far_nearest by simp

subsection \<open>C4: the connectivity handed to the tree library\<close>

text \<open>
  C4, as amended. Whenever a tree stage calls the mesh constructor, the connectivity it
  passes is made of the rows of exactly those cell blocks of the mesh read whose first
  tag equals the tag of the stage's region, block after block in the order of the mesh.
  When every block carries one tag per cell and the same tag for all of its cells, these
  are exactly the cells whose own tag equals the tag of the region.
\<close>

theorem tree_stage_blocks_by_first_tag:
  assumes "\<not> is_file (files w) tf"
    and "MeshInit v c orig \<in> set (new_calls w (snd (tree_stage tf name p prm L w)))"
  shows "\<exists>m tag physical. read_path L (files w) msh_file = Inr m \<and>
    region_tag m name = Inr tag \<and> cell_data m ''gmsh:physical'' = Some physical \<and>
    rows c = concat (map rows (blocks_with_first_tag physical (cells m) tag)) \<and>
    (uniform_blocks physical (cells m) \<longrightarrow> rows c = cells_with_tag physical (cells m) tag)"
proof -
  from tree_stage_mesh_init[OF assms] obtain m where m: "read_path L (files w) msh_file = Inr m"
    and c: "endo_connectivity m name = Inr c"
    by blast
  from endo_connectivity_rows[OF c] obtain tag physical where t: "region_tag m name = Inr tag"
    and ph: "cell_data m ''gmsh:physical'' = Some physical"
    and r: "rows c = concat (map rows (blocks_with_first_tag physical (cells m) tag))"
    by blast
  have "rows c = cells_with_tag physical (cells m) tag" if "uniform_blocks physical (cells m)"
    unfolding r using that by (rule uniform_blocks_selection)
  with m t ph r show ?thesis by blast
qed

theorem tree_stage_blocks_by_first_tag_witness:
  "\<not> is_file (files mesh_only) lv_file \<and>
   MeshInit (points sample_msh) \<lparr>ncols = 3, rows = [[0, 1, 3]]\<rparr> (0, 2.3, 0.2) \<in>
     set (new_calls mesh_only
       (snd (tree_stage lv_file ''ENDO_LV'' lv_init_node lv_param (sample_libs sample_msh)
          mesh_only))) \<and>
   (\<exists>m tag physical.
      read_path (sample_libs sample_msh) (files mesh_only) msh_file = Inr m \<and>
      region_tag m ''ENDO_LV'' = Inr tag \<and> cell_data m ''gmsh:physical'' = Some physical \<and>
      rows \<lparr>ncols = 3, rows = [[0, 1, 3]]\<rparr> =
        concat (map rows (blocks_with_first_tag physical (cells m) tag)) \<and>
      (uniform_blocks physical (cells m) \<longrightarrow>
         rows \<lparr>ncols = 3, rows = [[0, 1, 3]]\<rparr> = cells_with_tag physical (cells m) tag)) \<and>
   uniform_blocks [[5], [6], [7]] (cells sample_msh) \<and>
   cells_with_tag [[5], [6], [7]] (cells sample_msh) 5 = [[0, 1, 3]]"
proof -
  let ?L = "sample_libs sample_msh"
  let ?c = "\<lparr>ncols = 3, rows = [[0, 1, 3]]\<rparr>"
  have h1: "\<not> is_file (files mesh_only) lv_file"
    by (simp add: mesh_only_def is_file_def paths)
  have m: "files mesh_only msh_file = Some ''mesh''"
    by (simp add: mesh_only_def)
  have h2: "MeshInit (points sample_msh) ?c (0, 2.3, 0.2) \<in>
     set (new_calls mesh_only (snd (tree_stage lv_file ''ENDO_LV'' lv_init_node lv_param ?L mesh_only)))"
    using sample_lv_stage[OF m h1] by (simp add: lv_stage_def)
  have u: "uniform_blocks [[5], [6], [7]] (cells sample_msh)"
    by (simp add: uniform_blocks_def sample_msh_def)
  have s: "cells_with_tag [[5], [6], [7]] (cells sample_msh) 5 = [[0, 1, 3]]"
    by (simp add: cells_with_tag_def tagged_cells_def sample_msh_def)
  show ?thesis
    using h1 h2 u s tree_stage_blocks_by_first_tag[OF h1 h2] by (intro conjI)
qed

text \<open>
  The claim as written fails on a mesh whose block of triangles mixes the two
  endocardia: the left stage passes both cells of the block, the second of which carries
  the tag of the right endocardium.
\<close>

theorem tree_stage_blocks_by_first_tag_counterexample:
  "new_calls mesh_only (snd (lv_stage (sample_libs mixed_msh) mesh_only)) =
     [MeshioRead msh_file,
      MeshInit (points mixed_msh) \<lparr>ncols = 3, rows = [[0, 1, 3], [1, 2, 3]]\<rparr> (0, 2.3, 0.2),
      RandomSeed 1234, GenerateFractalTree 7 lv_param 1234] \<and>
   region_tag mixed_msh ''ENDO_LV'' = Inr 5 \<and>
   cell_data mixed_msh ''gmsh:physical'' = Some [[5, 6]] \<and>
   tagged_cells [[5, 6]] (cells mixed_msh) = [([0, 1, 3], 5), ([1, 2, 3], 6)] \<and>
   cells_with_tag [[5, 6]] (cells mixed_msh) 5 = [[0, 1, 3]] \<and>
   [[0, 1, 3], [1, 2, 3]] \<noteq> cells_with_tag [[5, 6]] (cells mixed_msh) 5"
proof -
  have h1: "\<not> is_file (files mesh_only) lv_file"
    by (simp add: mesh_only_def is_file_def paths)
  have m: "files mesh_only msh_file = Some ''mesh''"
    by (simp add: mesh_only_def)
  have pt: "points mixed_msh ! 1 = (0, 2.3, 0.2)"
    by (simp add: mixed_msh_def)
  have a: "new_calls mesh_only (snd (lv_stage (sample_libs mixed_msh) mesh_only)) =
     [MeshioRead msh_file,
      MeshInit (points mixed_msh) \<lparr>ncols = 3, rows = [[0, 1, 3], [1, 2, 3]]\<rparr> (0, 2.3, 0.2),
      RandomSeed 1234, GenerateFractalTree 7 lv_param 1234]"
    unfolding sample_libs_lv_stage[OF m h1 mixed_connectivity mixed_nearest] pt by simp
  have b: "region_tag mixed_msh ''ENDO_LV'' = Inr 5"
    by (simp add: mixed_msh_def region_tag_def lookup_def first_elem_def bind_err_def)
  have c: "cell_data mixed_msh ''gmsh:physical'' = Some [[5, 6]]"
    by (simp add: mixed_msh_def)
  have d: "tagged_cells [[5, 6]] (cells mixed_msh) = [([0, 1, 3], 5), ([1, 2, 3], 6)]"
    by (simp add: tagged_cells_def mixed_msh_def)
  have e: "cells_with_tag [[5, 6]] (cells mixed_msh) 5 = [[0, 1, 3]]"
    by (simp add: cells_with_tag_def d)
  have f: "[[0, 1, 3], [1, 2, 3]] \<noteq> cells_with_tag [[5, 6]] (cells mixed_msh) 5"
    by (simp add: e)
  show ?thesis
    using a b c d e f by (intro conjI)
qed

end
